theory Spec2Isabelle
  imports Main "HOL-Library.Word"
begin

unbundle bit_operations_syntax

section \<open>Bytes, machine words and C strings\<close>

type_synonym u8 = "8 word"
type_synonym u32 = "32 word"
type_synonym bytes = "u8 list"

text \<open>
  \<^verbatim>\<open>memcpy(&timestamp, data, 4)\<close> on the little-endian targets of the firmware (ESP32,
  nRF52): the first byte is the least significant one. The buffer behind \<open>data\<close> is
  longer than the payload; the model reads the bytes that are there.
\<close>

fun le_word :: "bytes \<Rightarrow> u32" where
  "le_word [] = 0"
| "le_word (b # bs) = ucast b OR push_bit 8 (le_word bs)"

definition le32 :: "bytes \<Rightarrow> u32" where
  "le32 d = le_word (take 4 d)"

text \<open>\<^verbatim>\<open>memcpy(dest, &value, 4)\<close>: the four bytes of a 32-bit value, least significant first.\<close>

definition u32_bytes :: "u32 \<Rightarrow> bytes" where
  "u32_bytes w = [ucast w, ucast (drop_bit 8 w), ucast (drop_bit 16 w), ucast (drop_bit 24 w)]"

text \<open>\<^verbatim>\<open>memcpy(buf, src, n)\<close> into the front of a member buffer: the rest of it stays.\<close>

definition memcpy_front :: "'a list \<Rightarrow> 'a list \<Rightarrow> 'a list" where
  "memcpy_front src buf = src @ drop (length src) buf"

text \<open>
  A C string read out of a byte buffer: the bytes before the first NUL
  (\<^verbatim>\<open>strlen\<close> is its length). Text is kept as the bytes it is in C; \<open>bytes_of\<close>
  writes a string literal of the source as its bytes.
\<close>

definition cstr :: "bytes \<Rightarrow> bytes" where
  "cstr d = takeWhile (\<lambda>b. b \<noteq> 0) d"

definition strlen :: "bytes \<Rightarrow> nat" where
  "strlen d = length (cstr d)"

definition bytes_of :: "string \<Rightarrow> bytes" where
  "bytes_of t = map of_char t"

section \<open>Packets, identities and what a handler does to the outside\<close>

text \<open>
  The payload types of \<^verbatim>\<open>Packet.h\<close> (not part of the sources at hand); the handlers only
  compare \<^verbatim>\<open>type\<close> with these macros, so they are kept as an enumeration.
\<close>

datatype payload_type =
    PAYLOAD_TYPE_REQ
  | PAYLOAD_TYPE_RESPONSE
  | PAYLOAD_TYPE_TXT_MSG
  | PAYLOAD_TYPE_ACK
  | PAYLOAD_TYPE_ADVERT
  | PAYLOAD_TYPE_GRP_TXT
  | PAYLOAD_TYPE_ANON_REQ
  | PAYLOAD_TYPE_PATH

record identity =
  pub_key :: bytes

text \<open>Modelled from the spec: \<^verbatim>\<open>Identity::matches\<close> is equality by public key.\<close>

definition matches :: "identity \<Rightarrow> identity \<Rightarrow> bool" where
  "matches a b = (pub_key a = pub_key b)"

text \<open>
  Modelled from the spec: \<^verbatim>\<open>Identity::isHashMatch\<close> compares the one-byte hash ID, the
  first byte of the public key.
\<close>

definition isHashMatch :: "identity \<Rightarrow> bytes \<Rightarrow> bool" where
  "isHashMatch a h = (take 1 (pub_key a) = take 1 h)"

text \<open>The received packet, as far as the handlers look at it.\<close>

record packet =
  isRouteFlood :: bool
  path :: bytes
  path_len :: u8

text \<open>
  A packet a handler has built, kept as the call that built it:
  \<^verbatim>\<open>createDatagram(type, dest, secret, data, len)\<close>, \<^verbatim>\<open>createAck(ack_hash)\<close>,
  \<^verbatim>\<open>createPathReturn(dest, secret, path, path_len, extra_type, extra, extra_len)\<close> and
  \<^verbatim>\<open>createAdvert(id, app_data, app_data_len)\<close>. The payload of a datagram is the
  plaintext handed over; \<open>secret\<close> is the key it is encrypted under.
\<close>

datatype out_packet =
    Datagram payload_type identity bytes bytes
  | Ack bytes
  | PathReturn identity bytes bytes payload_type bytes
  | Advert identity bytes

text \<open>
  Modelled from the spec: the \<^verbatim>\<open>create...\<close> methods of \<^verbatim>\<open>Mesh\<close> take a packet from the
  fixed pool and return NULL when no slot is free. \<open>pool_alloc\<close> gives the packet (or
  nothing) and the slots left.
\<close>

definition pool_alloc :: "out_packet \<Rightarrow> nat \<Rightarrow> out_packet option \<times> nat" where
  "pool_alloc p free = (if free = 0 then (None, free) else (Some p, free - 1))"

section \<open>Contacts, channels and the upcalls of the chat layer\<close>

text \<open>
  \<^verbatim>\<open>ContactInfo\<close> and \<^verbatim>\<open>mesh::GroupChannel\<close> with the fields the sources use
  (\<^verbatim>\<open>id\<close>, \<^verbatim>\<open>name\<close>, \<^verbatim>\<open>type\<close>, \<^verbatim>\<open>out_path_len\<close>, \<^verbatim>\<open>out_path\<close> carry a prefix here).
\<close>

record contact_info =
  c_id :: identity
  c_name :: bytes
  c_type :: u8
  c_out_path_len :: int
  c_out_path :: bytes
  last_advert_timestamp :: u32
  shared_secret :: bytes

record group_channel =
  gc_hash :: bytes
  gc_secret :: bytes

text \<open>
  What a handler does to the outside, in the order it does it: packets handed to
  \<^verbatim>\<open>sendFlood(pkt, delay_millis)\<close> and \<^verbatim>\<open>sendDirect(pkt, path, path_len, delay_millis)\<close>,
  the virtual upcalls into the application, and \<^verbatim>\<open>packet->markDoNotRetransmit()\<close>.
\<close>

datatype effect =
    SendFlood out_packet nat
  | SendDirect out_packet bytes nat
  | OnMessageRecv contact_info bool u32 bytes
  | OnDiscoveredContact contact_info bool
  | OnContactPathUpdated contact_info
  | OnChannelMessageRecv group_channel int u32 bytes
  | OnSendTimeout
  | MarkDoNotRetransmit

text \<open>
  How a call ends: it returns with the new state; or \<^verbatim>\<open>board.reboot()\<close> was reached, which
  does not return; or the call read \<^verbatim>\<open>matching_peer_indexes[sender_idx]\<close> outside the
  array, which the dispatcher never asks for; or the call wrote past the end of a
  fixed-size buffer (an unbounded \<^verbatim>\<open>memcpy\<close>, \<^verbatim>\<open>sprintf\<close> or decoder), after which
  nothing is known about the memory of the node.
\<close>

datatype 's outcome = Returns 's | Reboots | OutOfBounds | BufferOverrun

section \<open>What the handlers take from the rest of the firmware\<close>

text \<open>
  The handlers call into classes that are not part of the sources at hand (the key
  agreement, the hash, the radio's airtime estimate, the timeout policy, the
  application's \<^verbatim>\<open>processAck\<close>, the base64 decoder, the date formatter) and use constants
  of headers that are not there either. They are parameters of the model:
  every theorem below holds for all of them.
\<close>

record env =
  self_id :: identity
  calcSharedSecret :: "identity \<Rightarrow> bytes"
  sha256_digest :: "bytes \<Rightarrow> bytes"
  MAX_CONTACTS :: nat
  MAX_GROUP_CHANNELS :: "nat option"
  MAX_TEXT_LEN :: nat
  MAX_SEARCH_RESULTS :: nat
  MAX_PATH_SIZE :: nat
  NAME_SIZE :: nat
  getEstAirtimeFor :: "out_packet \<Rightarrow> u32"
  calcFloodTimeoutMillisFor :: "u32 \<Rightarrow> u32"
  calcDirectTimeoutMillisFor :: "u32 \<Rightarrow> int \<Rightarrow> u32"
  millisHasNowPassed :: "u32 \<Rightarrow> u32 \<Rightarrow> bool"
  processAck :: "bytes \<Rightarrow> bool"
  decode_base64 :: "bytes \<Rightarrow> bytes"
  self_advert_data :: bytes
  repeater_stats :: bytes
  clock_text :: "u32 \<Rightarrow> bytes"

text \<open>
  Modelled from the spec: \<^verbatim>\<open>mesh::Utils::sha256(hash, hash_len, msg, msg_len, frag2,
  frag2_len)\<close> writes the first \<open>hash_len\<close> bytes of the SHA-256 digest of the two
  fragments, one after the other. The digest function itself is a parameter.
\<close>

definition sha256 :: "env \<Rightarrow> nat \<Rightarrow> bytes \<Rightarrow> bytes \<Rightarrow> bytes" where
  "sha256 e hash_len msg frag2 = take hash_len (sha256_digest e (msg @ frag2))"

text \<open>
  The ACK hash of a received text message, as both receivers compute it:
  \<^verbatim>\<open>sha256((uint8_t *) &ack_hash, 4, data, 5 + strlen((char *)&data[5]), pub_key,
  PUB_KEY_SIZE)\<close>, after \<^verbatim>\<open>data[len] = 0\<close>.
\<close>

definition calc_ack_hash :: "env \<Rightarrow> bytes \<Rightarrow> bytes \<Rightarrow> bytes" where
  "calc_ack_hash e data pk = sha256 e 4 (take (5 + strlen (drop 5 data)) data) pk"

section \<open>The state every mesh has\<close>

text \<open>
  The base class \<^verbatim>\<open>mesh::Mesh\<close>, as far as the handlers use it: the real-time clock
  (seconds), the millisecond clock, the free slots of the packet pool, and the trace of
  effects. \<^verbatim>\<open>ESP32RTCClock\<close> reads and sets the seconds of the system time; the value is
  a \<^verbatim>\<open>uint32_t\<close> on both sides.
\<close>

record mesh =
  rtc :: u32
  millis :: u32
  pool_free :: nat
  effects :: "effect list"

definition getCurrentTime :: "'a mesh_scheme \<Rightarrow> u32" where
  "getCurrentTime s = rtc s"

definition setCurrentTime :: "u32 \<Rightarrow> 'a mesh_scheme \<Rightarrow> 'a mesh_scheme" where
  "setCurrentTime t s = s\<lparr>rtc := t\<rparr>"

text \<open>Modelled from the spec: \<^verbatim>\<open>futureMillis(d)\<close> is the millisecond clock plus \<open>d\<close>.\<close>

definition futureMillis :: "u32 \<Rightarrow> 'a mesh_scheme \<Rightarrow> u32" where
  "futureMillis d s = millis s + d"

definition create :: "out_packet \<Rightarrow> 'a mesh_scheme \<Rightarrow> out_packet option \<times> 'a mesh_scheme" where
  "create p s = (case pool_alloc p (pool_free s) of (r, free) \<Rightarrow> (r, s\<lparr>pool_free := free\<rparr>))"

definition createDatagram ::
  "payload_type \<Rightarrow> identity \<Rightarrow> bytes \<Rightarrow> bytes \<Rightarrow> 'a mesh_scheme \<Rightarrow> out_packet option \<times> 'a mesh_scheme" where
  "createDatagram t dest secret data s = create (Datagram t dest secret data) s"

definition createAck :: "bytes \<Rightarrow> 'a mesh_scheme \<Rightarrow> out_packet option \<times> 'a mesh_scheme" where
  "createAck ack_hash s = create (Ack ack_hash) s"

definition createPathReturn ::
  "identity \<Rightarrow> bytes \<Rightarrow> bytes \<Rightarrow> u8 \<Rightarrow> payload_type \<Rightarrow> bytes \<Rightarrow> 'a mesh_scheme
     \<Rightarrow> out_packet option \<times> 'a mesh_scheme" where
  "createPathReturn dest secret pth pth_len extra_type extra s =
     create (PathReturn dest secret (take (unat pth_len) pth) extra_type extra) s"

definition createAdvert :: "identity \<Rightarrow> bytes \<Rightarrow> 'a mesh_scheme \<Rightarrow> out_packet option \<times> 'a mesh_scheme" where
  "createAdvert ident app_data s = create (Advert ident app_data) s"

definition emit :: "effect \<Rightarrow> 'a mesh_scheme \<Rightarrow> 'a mesh_scheme" where
  "emit x s = s\<lparr>effects := effects s @ [x]\<rparr>"

definition sendFlood :: "out_packet \<Rightarrow> nat \<Rightarrow> 'a mesh_scheme \<Rightarrow> 'a mesh_scheme" where
  "sendFlood pkt delay_millis s = emit (SendFlood pkt delay_millis) s"

definition sendDirect :: "out_packet \<Rightarrow> bytes \<Rightarrow> int \<Rightarrow> nat \<Rightarrow> 'a mesh_scheme \<Rightarrow> 'a mesh_scheme" where
  "sendDirect pkt pth pth_len delay_millis s =
     emit (SendDirect pkt (take (nat pth_len) pth) delay_millis) s"

text \<open>
  The search loops \<^verbatim>\<open>for (int i = 0; i < n; i++) if (...) ...\<close> over the live part of a
  table: the first index whose entry passes the test.
\<close>

fun first_match :: "('a \<Rightarrow> bool) \<Rightarrow> 'a list \<Rightarrow> nat \<Rightarrow> nat option" where
  "first_match P [] i = None"
| "first_match P (x # xs) i = (if P x then Some i else first_match P xs (Suc i))"

section \<open>The repeater: \<^verbatim>\<open>MyMesh\<close> of \<^verbatim>\<open>examples/simple_repeater/main.cpp\<close>\<close>

record client_info =
  cl_id :: identity
  last_timestamp :: u32
  secret :: bytes
  cl_out_path_len :: int
  cl_out_path :: bytes

definition MAX_CLIENTS :: nat where
  "MAX_CLIENTS = 4"

definition CLI_REPLY_DELAY_MILLIS :: nat where
  "CLI_REPLY_DELAY_MILLIS = 1500"

definition ADMIN_PASSWORD :: bytes where
  "ADMIN_PASSWORD = bytes_of ''h^(kl@#)''"

definition FIRMWARE_VER_TEXT :: bytes where
  "FIRMWARE_VER_TEXT = bytes_of ''v1 (build: 24 Jan 2025)''"

definition CMD_GET_STATS :: u8 where
  "CMD_GET_STATS = 1"

text \<open>\<^verbatim>\<open>sizeof(RepeaterStats)\<close>: four 16-bit and nine 32-bit fields.\<close>

definition sizeof_stats :: nat where
  "sizeof_stats = 44"

text \<open>
  \<^verbatim>\<open>airtime_factor\<close> is a float set from \<^verbatim>\<open>atof(&command[7])\<close>; the model keeps the text
  handed to \<^verbatim>\<open>atof\<close> in its place.
\<close>

record my_mesh = mesh +
  num_clients :: int
  known_clients :: "client_info list"
  r_matching_peer_indexes :: "int list"
  reply_data :: bytes
  airtime_factor :: bytes

text \<open>The search loop of \<^verbatim>\<open>putClient\<close> over \<^verbatim>\<open>known_clients[0 .. num_clients)\<close>.\<close>

definition lookup_client :: "my_mesh \<Rightarrow> identity \<Rightarrow> nat option" where
  "lookup_client s ident =
     first_match (\<lambda>c. matches ident (cl_id c)) (take (nat (num_clients s)) (known_clients s)) 0"

definition putClient :: "env \<Rightarrow> identity \<Rightarrow> my_mesh \<Rightarrow> nat option \<times> my_mesh" where
  "putClient e ident s =
     (case lookup_client s ident of
        Some i \<Rightarrow> (Some i, s)
      | None \<Rightarrow>
          if num_clients s < int MAX_CLIENTS then
            let n = nat (num_clients s);
                newClient = (known_clients s ! n)
                  \<lparr>cl_id := ident, last_timestamp := 0, secret := calcSharedSecret e ident,
                   cl_out_path_len := - 1\<rparr>
            in (Some n, s\<lparr>num_clients := num_clients s + 1,
                          known_clients := (known_clients s)[n := newClient]\<rparr>)
          else (None, s))"

text \<open>
  \<^verbatim>\<open>handleRequest\<close> returns \<^verbatim>\<open>reply_len\<close>; the reply is in \<^verbatim>\<open>reply_data\<close>. The statistics
  come from the board and the radio, \<open>repeater_stats\<close> stands for the bytes of the struct.
\<close>

definition handleRequest :: "env \<Rightarrow> bytes \<Rightarrow> nat \<Rightarrow> my_mesh \<Rightarrow> nat \<times> my_mesh" where
  "handleRequest e payload payload_len s =
     (let now = getCurrentTime s;
          s1 = s\<lparr>reply_data := memcpy_front (u32_bytes now) (reply_data s)\<rparr>
      in if take 1 payload = [CMD_GET_STATS] then
           (4 + sizeof_stats,
            s1\<lparr>reply_data :=
                 memcpy_front (u32_bytes now @ take sizeof_stats (repeater_stats e @ replicate sizeof_stats 0))
                   (reply_data s1)\<rparr>)
         else (0, s1))"

text \<open>
  The tail of \<^verbatim>\<open>onAnonDataRecv\<close> and of the \<^verbatim>\<open>REQ\<close> branch of \<^verbatim>\<open>onPeerDataRecv\<close>: a path
  return when the request came by flood, else a datagram sent direct when the client
  has an out path, else flooded.
\<close>

definition send_response ::
  "packet \<Rightarrow> identity \<Rightarrow> bytes \<Rightarrow> nat \<Rightarrow> nat \<Rightarrow> my_mesh \<Rightarrow> my_mesh" where
  "send_response pkt dest sec i reply_len s =
     (if isRouteFlood pkt then
        (case createPathReturn dest sec (path pkt) (path_len pkt) PAYLOAD_TYPE_RESPONSE
                (take reply_len (reply_data s)) s of
           (None, s1) \<Rightarrow> s1
         | (Some p, s1) \<Rightarrow> sendFlood p 0 s1)
      else
        (case createDatagram PAYLOAD_TYPE_RESPONSE dest sec (take reply_len (reply_data s)) s of
           (None, s1) \<Rightarrow> s1
         | (Some reply, s1) \<Rightarrow>
             if 0 \<le> cl_out_path_len (known_clients s1 ! i) then
               sendDirect reply (cl_out_path (known_clients s1 ! i))
                 (cl_out_path_len (known_clients s1 ! i)) 0 s1
             else sendFlood reply 0 s1))"

definition onAnonDataRecv ::
  "env \<Rightarrow> packet \<Rightarrow> payload_type \<Rightarrow> identity \<Rightarrow> bytes \<Rightarrow> my_mesh \<Rightarrow> my_mesh" where
  "onAnonDataRecv e pkt type sender data s =
     (if type = PAYLOAD_TYPE_ANON_REQ then
        let timestamp = le32 data in
        if take (length ADMIN_PASSWORD) (drop 4 data) = ADMIN_PASSWORD then
          (case putClient e sender s of
             (None, s1) \<Rightarrow> s1
           | (Some i, s1) \<Rightarrow>
               if timestamp \<le> last_timestamp (known_clients s1 ! i) then s1
               else
                 let s2 = s1\<lparr>known_clients :=
                            (known_clients s1)[i := (known_clients s1 ! i)\<lparr>last_timestamp := timestamp\<rparr>]\<rparr>;
                     now = getCurrentTime s2;
                     s3 = s2\<lparr>reply_data := memcpy_front (u32_bytes now @ bytes_of ''OK'') (reply_data s2)\<rparr>
                 in send_response pkt sender (secret (known_clients s3 ! i)) i (4 + 2) s3)
        else s
      else s)"

definition searchPeersByHash_rep :: "bytes \<Rightarrow> my_mesh \<Rightarrow> nat \<times> my_mesh" where
  "searchPeersByHash_rep h s =
     (let found = filter (\<lambda>i. isHashMatch (cl_id (known_clients s ! i)) h) [0 ..< nat (num_clients s)]
      in (length found,
          s\<lparr>r_matching_peer_indexes := memcpy_front (map int found) (r_matching_peer_indexes s)\<rparr>))"

definition sendSelfAdvertisement :: "env \<Rightarrow> my_mesh \<Rightarrow> my_mesh" where
  "sendSelfAdvertisement e s =
     (case createAdvert (self_id e) (self_advert_data e) s of
        (None, s1) \<Rightarrow> s1
      | (Some pkt, s1) \<Rightarrow> sendFlood pkt 800 s1)"

text \<open>
  \<^verbatim>\<open>handleCommand(sender_timestamp, command, reply)\<close>: the state after it and the text it
  left in \<^verbatim>\<open>reply\<close>, or nothing when it rebooted the board. \<^verbatim>\<open>memcmp(command, lit, n)\<close>
  compares the first \<open>n\<close> bytes; a shorter command differs at its NUL.
\<close>

definition handleCommand :: "env \<Rightarrow> u32 \<Rightarrow> bytes \<Rightarrow> my_mesh \<Rightarrow> (my_mesh \<times> bytes) option" where
  "handleCommand e sender_timestamp command0 s =
     (let command = dropWhile (\<lambda>b. b = of_char CHR '' '') command0 in
      if take 6 command = bytes_of ''reboot'' then None
      else if take 6 command = bytes_of ''advert'' then
        Some (sendSelfAdvertisement e s, bytes_of ''OK - Advert sent'')
      else if take 10 command = bytes_of ''clock sync'' then
        (let curr = getCurrentTime s in
         if curr < sender_timestamp then
           Some (setCurrentTime (sender_timestamp + 1) s, bytes_of ''OK - clock set'')
         else Some (s, bytes_of ''ERR: clock cannot go backwards''))
      else if take 5 command = bytes_of ''clock'' then
        Some (s, clock_text e (getCurrentTime s))
      else if take 4 command = bytes_of ''set '' then
        (if take 2 (drop 4 command) = bytes_of ''AF'' \<or> take 2 (drop 4 command) = bytes_of ''af'' then
           Some (s\<lparr>airtime_factor := drop 7 command\<rparr>, bytes_of ''OK'')
         else Some (s, bytes_of ''unknown config: '' @ drop 4 command))
      else if take 3 command = bytes_of ''ver'' then Some (s, FIRMWARE_VER_TEXT)
      else Some (s, bytes_of ''Unknown: '' @ command
                      @ bytes_of '' (commands: reboot, advert, clock, set, ver)''))"

text \<open>The \<^verbatim>\<open>REQ\<close> branch of the repeater's \<^verbatim>\<open>onPeerDataRecv\<close>, for the client at index \<open>i\<close>.\<close>

definition on_req :: "env \<Rightarrow> packet \<Rightarrow> nat \<Rightarrow> bytes \<Rightarrow> bytes \<Rightarrow> my_mesh \<Rightarrow> my_mesh" where
  "on_req e pkt i sec data s =
     (let timestamp = le32 data in
      if last_timestamp (known_clients s ! i) < timestamp then
        (case handleRequest e (drop 4 data) (length data - 4) s of
           (reply_len, s1) \<Rightarrow>
             if reply_len = 0 then s1
             else
               let s2 = s1\<lparr>known_clients :=
                          (known_clients s1)[i := (known_clients s1 ! i)\<lparr>last_timestamp := timestamp\<rparr>]\<rparr>
               in send_response pkt (cl_id (known_clients s2 ! i)) sec i reply_len s2)
      else s)"

text \<open>The reply to a CLI command, sent after the ACK.\<close>

definition send_cli_reply :: "u32 \<Rightarrow> nat \<Rightarrow> bytes \<Rightarrow> bytes \<Rightarrow> my_mesh \<Rightarrow> my_mesh" where
  "send_cli_reply sender_timestamp i sec reply_text s =
     (let text_len = strlen reply_text in
      if 0 < text_len then
        let now = getCurrentTime s;
            timestamp = (if now = sender_timestamp then now + 1 else now);
            temp = u32_bytes timestamp @ [0] @ reply_text
        in (case createDatagram PAYLOAD_TYPE_TXT_MSG (cl_id (known_clients s ! i)) sec
                   (take (5 + text_len) temp) s of
              (None, s1) \<Rightarrow> s1
            | (Some reply, s1) \<Rightarrow>
                if cl_out_path_len (known_clients s1 ! i) < 0 then
                  sendFlood reply CLI_REPLY_DELAY_MILLIS s1
                else
                  sendDirect reply (cl_out_path (known_clients s1 ! i))
                    (cl_out_path_len (known_clients s1 ! i)) CLI_REPLY_DELAY_MILLIS s1)
      else s)"

text \<open>
  The \<^verbatim>\<open>TXT_MSG\<close> branch of the repeater's \<^verbatim>\<open>onPeerDataRecv\<close>, a CLI command. First the
  part up to the ACK: the client's timestamp is stored and the ACK is sent.
\<close>

definition ack_cli_text :: "env \<Rightarrow> nat \<Rightarrow> bytes \<Rightarrow> my_mesh \<Rightarrow> my_mesh" where
  "ack_cli_text e i data s =
     (let sender_timestamp = le32 data;
          s1 = s\<lparr>known_clients :=
                 (known_clients s)[i := (known_clients s ! i)\<lparr>last_timestamp := sender_timestamp\<rparr>]\<rparr>;
          ack_hash = calc_ack_hash e data (pub_key (cl_id (known_clients s1 ! i)))
      in (case createAck ack_hash s1 of
            (None, s') \<Rightarrow> s'
          | (Some ack, s') \<Rightarrow>
              if cl_out_path_len (known_clients s' ! i) < 0 then sendFlood ack 0 s'
              else sendDirect ack (cl_out_path (known_clients s' ! i))
                     (cl_out_path_len (known_clients s' ! i)) 0 s'))"

text \<open>
  \<^verbatim>\<open>handleCommand\<close> is handed \<^verbatim>\<open>&temp[5]\<close> of \<^verbatim>\<open>uint8_t temp[166]\<close> for its reply and
  writes the reply and its NUL there with \<^verbatim>\<open>strcpy\<close> and \<^verbatim>\<open>sprintf\<close>, which know no
  bound: a reply of more than 160 bytes runs over the buffer on the stack. (The reply
  to an unknown command repeats the command, so a command of 108 bytes does that.)
\<close>

definition CLI_REPLY_BUF :: nat where
  "CLI_REPLY_BUF = 166 - 5"

definition on_cli_text :: "env \<Rightarrow> nat \<Rightarrow> bytes \<Rightarrow> bytes \<Rightarrow> my_mesh \<Rightarrow> my_mesh outcome" where
  "on_cli_text e i sec data s =
     (let sender_timestamp = le32 data;
          flags = data ! 4
      in if flags \<noteq> 0 then Returns s
         else if last_timestamp (known_clients s ! i) < sender_timestamp then
           (case handleCommand e sender_timestamp (cstr (drop 5 data)) (ack_cli_text e i data s) of
              None \<Rightarrow> Reboots
            | Some (s3, reply_text) \<Rightarrow>
                if CLI_REPLY_BUF < length reply_text + 1 then BufferOverrun
                else Returns (send_cli_reply sender_timestamp i sec reply_text s3))
         else Returns s)"

definition onPeerDataRecv_rep ::
  "env \<Rightarrow> packet \<Rightarrow> payload_type \<Rightarrow> nat \<Rightarrow> bytes \<Rightarrow> bytes \<Rightarrow> my_mesh \<Rightarrow> my_mesh outcome" where
  "onPeerDataRecv_rep e pkt type sender_idx sec data s =
     (if sender_idx < length (r_matching_peer_indexes s) then
        let i = r_matching_peer_indexes s ! sender_idx in
        if i < 0 \<or> num_clients s \<le> i then Returns s
        else if type = PAYLOAD_TYPE_REQ then Returns (on_req e pkt (nat i) sec data s)
        else if type = PAYLOAD_TYPE_TXT_MSG \<and> 5 < length data then on_cli_text e (nat i) sec data s
        else Returns s
      else OutOfBounds)"

text \<open>
  \<^verbatim>\<open>memcpy(client->out_path, path, client->out_path_len = path_len)\<close> copies \<^verbatim>\<open>path_len\<close>
  bytes, whatever \<^verbatim>\<open>path_len\<close> is, into \<^verbatim>\<open>out_path[MAX_PATH_SIZE]\<close>: a longer path runs
  over the array into what follows it.
\<close>

definition onPeerPathRecv_rep ::
  "env \<Rightarrow> nat \<Rightarrow> bytes \<Rightarrow> u8 \<Rightarrow> my_mesh \<Rightarrow> (bool \<times> my_mesh) outcome" where
  "onPeerPathRecv_rep e sender_idx pth pth_len s =
     (if sender_idx < length (r_matching_peer_indexes s) then
        let i = r_matching_peer_indexes s ! sender_idx in
        if 0 \<le> i \<and> i < num_clients s then
          if MAX_PATH_SIZE e < unat pth_len then BufferOverrun
          else
            let client = known_clients s ! nat i;
                client' = client\<lparr>cl_out_path_len := uint pth_len,
                                 cl_out_path := memcpy_front (take (unat pth_len) pth) (cl_out_path client)\<rparr>
            in Returns (False, s\<lparr>known_clients := (known_clients s)[nat i := client']\<rparr>)
        else Returns (False, s)
      else OutOfBounds)"

section \<open>The chat layer: \<^verbatim>\<open>BaseChatMesh\<close> of \<^verbatim>\<open>src/helpers/BaseChatMesh.cpp\<close>\<close>

text \<open>Modelled from the spec: public keys and channel secrets have 32 bytes, a path hash one.\<close>

definition PUB_KEY_SIZE :: nat where
  "PUB_KEY_SIZE = 32"

definition PATH_HASH_SIZE :: nat where
  "PATH_HASH_SIZE = 1"

text \<open>
  The return codes of \<^verbatim>\<open>sendMessage\<close> (macros of \<^verbatim>\<open>BaseChatMesh.h\<close>), and what
  \<^verbatim>\<open>AdvertDataParser\<close> answers about the \<^verbatim>\<open>app_data\<close> of an advert.
\<close>

datatype msg_send = MSG_SEND_FAILED | MSG_SEND_SENT_FLOOD | MSG_SEND_SENT_DIRECT

record advert_data_parser =
  isValid :: bool
  hasName :: bool
  getName :: bytes
  getType :: u8

record base_chat_mesh = mesh +
  num_contacts :: int
  contacts :: "contact_info list"
  matching_peer_indexes :: "int list"
  num_channels :: int
  channels :: "group_channel list"
  txt_send_timeout :: u32

text \<open>
  The \<^verbatim>\<open>// update\<close> part of \<^verbatim>\<open>onAdvertRecv\<close>, on the contact at index \<open>i\<close>:
  \<^verbatim>\<open>strncpy\<close> keeps at most \<^verbatim>\<open>sizeof(from->name)-1\<close> bytes of the name.
\<close>

text \<open>The search loop of \<^verbatim>\<open>onAdvertRecv\<close> over \<^verbatim>\<open>contacts[0 .. num_contacts)\<close>.\<close>

definition lookup_contact :: "base_chat_mesh \<Rightarrow> identity \<Rightarrow> nat option" where
  "lookup_contact s ident =
     first_match (\<lambda>c. matches ident (c_id c)) (take (nat (num_contacts s)) (contacts s)) 0"

definition update_contact ::
  "env \<Rightarrow> nat \<Rightarrow> u32 \<Rightarrow> advert_data_parser \<Rightarrow> bool \<Rightarrow> base_chat_mesh \<Rightarrow> base_chat_mesh" where
  "update_contact e i timestamp parser is_new s =
     (let from = (contacts s ! i)
            \<lparr>c_name := take (NAME_SIZE e - 1) (cstr (getName parser)),
             c_type := getType parser,
             last_advert_timestamp := timestamp\<rparr>
      in emit (OnDiscoveredContact from is_new) (s\<lparr>contacts := (contacts s)[i := from]\<rparr>))"

definition onAdvertRecv ::
  "env \<Rightarrow> packet \<Rightarrow> identity \<Rightarrow> u32 \<Rightarrow> advert_data_parser \<Rightarrow> base_chat_mesh \<Rightarrow> base_chat_mesh" where
  "onAdvertRecv e pkt ident timestamp parser s =
     (if \<not> (isValid parser \<and> hasName parser) then s
      else
        (case lookup_contact s ident of
           Some i \<Rightarrow>
             if timestamp \<le> last_advert_timestamp (contacts s ! i) then s
             else update_contact e i timestamp parser False s
         | None \<Rightarrow>
             if num_contacts s < int (MAX_CONTACTS e) then
               let n = nat (num_contacts s);
                   from = (contacts s ! n)
                     \<lparr>c_id := ident, c_out_path_len := - 1, shared_secret := calcSharedSecret e ident\<rparr>
               in update_contact e n timestamp parser True
                    (s\<lparr>num_contacts := num_contacts s + 1, contacts := (contacts s)[n := from]\<rparr>)
             else s))"

definition searchPeersByHash :: "env \<Rightarrow> bytes \<Rightarrow> base_chat_mesh \<Rightarrow> nat \<times> base_chat_mesh" where
  "searchPeersByHash e h s =
     (let found = take (MAX_SEARCH_RESULTS e)
            (filter (\<lambda>i. isHashMatch (c_id (contacts s ! i)) h) [0 ..< nat (num_contacts s)])
      in (length found,
          s\<lparr>matching_peer_indexes := memcpy_front (map int found) (matching_peer_indexes s)\<rparr>))"

text \<open>
  The acknowledgement of a plain text message: by path return when it came by flood,
  else an ACK packet, flooded or sent direct.
\<close>

definition send_ack :: "packet \<Rightarrow> contact_info \<Rightarrow> bytes \<Rightarrow> bytes \<Rightarrow> base_chat_mesh \<Rightarrow> base_chat_mesh" where
  "send_ack pkt from sec ack_hash s =
     (if isRouteFlood pkt then
        (case createPathReturn (c_id from) sec (path pkt) (path_len pkt) PAYLOAD_TYPE_ACK ack_hash s of
           (None, s1) \<Rightarrow> s1
         | (Some p, s1) \<Rightarrow> sendFlood p 0 s1)
      else
        (case createAck ack_hash s of
           (None, s1) \<Rightarrow> s1
         | (Some ack, s1) \<Rightarrow>
             if c_out_path_len from < 0 then sendFlood ack 0 s1
             else sendDirect ack (c_out_path from) (c_out_path_len from) 0 s1))"

definition onPeerDataRecv ::
  "env \<Rightarrow> packet \<Rightarrow> payload_type \<Rightarrow> nat \<Rightarrow> bytes \<Rightarrow> bytes \<Rightarrow> base_chat_mesh
     \<Rightarrow> base_chat_mesh outcome" where
  "onPeerDataRecv e pkt type sender_idx sec data s =
     (if type = PAYLOAD_TYPE_TXT_MSG \<and> 5 < length data then
        if sender_idx < length (matching_peer_indexes s) then
          let i = matching_peer_indexes s ! sender_idx in
          if i < 0 \<or> num_contacts s \<le> i then Returns s
          else
            let from = contacts s ! nat i;
                timestamp = le32 data;
                flags = data ! 4
            in if drop_bit 2 flags = 0 then
                 let s1 = emit (OnMessageRecv from (isRouteFlood pkt) timestamp (cstr (drop 5 data))) s;
                     ack_hash = calc_ack_hash e data (pub_key (c_id from))
                 in Returns (send_ack pkt from sec ack_hash s1)
               else Returns s
        else OutOfBounds
      else Returns s)"

text \<open>
  \<^verbatim>\<open>memcpy(from.out_path, path, from.out_path_len = path_len)\<close> has no bound on \<^verbatim>\<open>path_len\<close>
  either: more than \<^verbatim>\<open>MAX_PATH_SIZE\<close> bytes run over \<^verbatim>\<open>out_path\<close>.
\<close>

definition onPeerPathRecv ::
  "env \<Rightarrow> packet \<Rightarrow> nat \<Rightarrow> bytes \<Rightarrow> bytes \<Rightarrow> u8 \<Rightarrow> payload_type \<Rightarrow> bytes \<Rightarrow> u8 \<Rightarrow> base_chat_mesh
     \<Rightarrow> (bool \<times> base_chat_mesh) outcome" where
  "onPeerPathRecv e pkt sender_idx sec pth pth_len extra_type extra extra_len s =
     (if sender_idx < length (matching_peer_indexes s) then
        let i = matching_peer_indexes s ! sender_idx in
        if i < 0 \<or> num_contacts s \<le> i then Returns (False, s)
        else if MAX_PATH_SIZE e < unat pth_len then BufferOverrun
        else
          let from = (contacts s ! nat i)
                \<lparr>c_out_path_len := uint pth_len,
                 c_out_path := memcpy_front (take (unat pth_len) pth) (c_out_path (contacts s ! nat i))\<rparr>;
              s1 = emit (OnContactPathUpdated from) (s\<lparr>contacts := (contacts s)[nat i := from]\<rparr>)
          in if extra_type = PAYLOAD_TYPE_ACK \<and> 4 \<le> extra_len then
               if processAck e (take 4 extra) then Returns (True, s1\<lparr>txt_send_timeout := 0\<rparr>)
               else Returns (True, s1)
             else Returns (True, s1)
      else OutOfBounds)"

definition onAckRecv :: "env \<Rightarrow> packet \<Rightarrow> u32 \<Rightarrow> base_chat_mesh \<Rightarrow> base_chat_mesh" where
  "onAckRecv e pkt ack_crc s =
     (if processAck e (u32_bytes ack_crc) then emit MarkDoNotRetransmit (s\<lparr>txt_send_timeout := 0\<rparr>)
      else s)"

definition onGroupDataRecv ::
  "packet \<Rightarrow> payload_type \<Rightarrow> group_channel \<Rightarrow> bytes \<Rightarrow> base_chat_mesh \<Rightarrow> base_chat_mesh" where
  "onGroupDataRecv pkt type channel data s =
     (if type = PAYLOAD_TYPE_GRP_TXT \<and> 5 < length data \<and> drop_bit 2 (data ! 4) = 0 then
        emit (OnChannelMessageRecv channel (if isRouteFlood pkt then uint (path_len pkt) else - 1)
                (le32 data) (cstr (drop 5 data))) s
      else s)"

text \<open>
  \<^verbatim>\<open>composeMsgPacket\<close> gives the packet (or NULL) and leaves the expected ACK in the
  reference \<^verbatim>\<open>expected_ack\<close>, which keeps its old value when the text is too long.
\<close>

definition composeMsgPacket ::
  "env \<Rightarrow> contact_info \<Rightarrow> u8 \<Rightarrow> bytes \<Rightarrow> bytes \<Rightarrow> base_chat_mesh
     \<Rightarrow> (out_packet option \<times> bytes) \<times> base_chat_mesh" where
  "composeMsgPacket e recipient attempt txt expected_ack s =
     (let text_len = strlen txt in
      if MAX_TEXT_LEN e < text_len then ((None, expected_ack), s)
      else
        let timestamp = getCurrentTime s;
            temp = u32_bytes timestamp @ [attempt AND 3] @ cstr txt @ [0]
        in (case createDatagram PAYLOAD_TYPE_TXT_MSG (c_id recipient) (shared_secret recipient)
                   (take (5 + text_len) temp) s of
              (r, s1) \<Rightarrow> ((r, sha256 e 4 (take (5 + text_len) temp) (pub_key (self_id e))), s1)))"

definition sendMessage ::
  "env \<Rightarrow> contact_info \<Rightarrow> u8 \<Rightarrow> bytes \<Rightarrow> bytes \<Rightarrow> base_chat_mesh
     \<Rightarrow> (msg_send \<times> bytes) \<times> base_chat_mesh" where
  "sendMessage e recipient attempt txt expected_ack s =
     (case composeMsgPacket e recipient attempt txt expected_ack s of
        ((None, ack), s1) \<Rightarrow> ((MSG_SEND_FAILED, ack), s1)
      | ((Some pkt, ack), s1) \<Rightarrow>
          let t = getEstAirtimeFor e pkt in
          if c_out_path_len recipient < 0 then
            ((MSG_SEND_SENT_FLOOD, ack),
             (sendFlood pkt 0 s1)\<lparr>txt_send_timeout := futureMillis (calcFloodTimeoutMillisFor e t) s1\<rparr>)
          else
            ((MSG_SEND_SENT_DIRECT, ack),
             (sendDirect pkt (c_out_path recipient) (c_out_path_len recipient) 0 s1)
               \<lparr>txt_send_timeout :=
                  futureMillis (calcDirectTimeoutMillisFor e t (c_out_path_len recipient)) s1\<rparr>))"

definition resetPathTo :: "contact_info \<Rightarrow> contact_info" where
  "resetPathTo recipient =
     (if 0 \<le> c_out_path_len recipient then recipient\<lparr>c_out_path_len := - 1\<rparr> else recipient)"

definition addContact :: "env \<Rightarrow> contact_info \<Rightarrow> base_chat_mesh \<Rightarrow> bool \<times> base_chat_mesh" where
  "addContact e contact s =
     (if num_contacts s < int (MAX_CONTACTS e) then
        let n = nat (num_contacts s);
            dest = contact\<lparr>shared_secret := calcSharedSecret e (c_id contact)\<rparr>
        in (True, s\<lparr>num_contacts := num_contacts s + 1, contacts := (contacts s)[n := dest]\<rparr>)
      else (False, s))"

text \<open>
  \<^verbatim>\<open>addChannel\<close> gives the index of the new channel, or nothing. Without
  \<^verbatim>\<open>MAX_GROUP_CHANNELS\<close> the other definition of the source is compiled, which does
  nothing. \<^verbatim>\<open>decode_base64\<close> writes every decoded byte into the slot's
  \<^verbatim>\<open>secret[PUB_KEY_SIZE]\<close>, cleared before, and only then the length is looked at: a key
  of more than \<^verbatim>\<open>PUB_KEY_SIZE\<close> bytes runs over the field. A key of another length
  than 16 or 32 is refused, but it stays written in the free slot.
\<close>

definition addChannel ::
  "env \<Rightarrow> bytes \<Rightarrow> base_chat_mesh \<Rightarrow> (nat option \<times> base_chat_mesh) outcome" where
  "addChannel e psk_base64 s =
     (case MAX_GROUP_CHANNELS e of
        None \<Rightarrow> Returns (None, s)
      | Some m \<Rightarrow>
          if num_channels s < int m then
            let n = nat (num_channels s);
                decoded = decode_base64 e (cstr psk_base64);
                len = length decoded
            in if PUB_KEY_SIZE < len then BufferOverrun
               else
                 let sec = memcpy_front decoded (replicate PUB_KEY_SIZE 0);
                     dest = (channels s ! n)\<lparr>gc_secret := sec\<rparr>
                 in if len = 32 \<or> len = 16 then
                      Returns (Some n,
                        s\<lparr>num_channels := num_channels s + 1,
                          channels := (channels s)
                            [n := dest\<lparr>gc_hash := sha256 e PATH_HASH_SIZE (take len sec) []\<rparr>]\<rparr>)
                    else Returns (None, s\<lparr>channels := (channels s)[n := dest]\<rparr>)
          else Returns (None, s))"

text \<open>
  \<^verbatim>\<open>loop()\<close> after \<^verbatim>\<open>Mesh::loop()\<close>, whose deliveries to the handlers are steps of their
  own in this model.
\<close>

definition loop :: "env \<Rightarrow> base_chat_mesh \<Rightarrow> base_chat_mesh" where
  "loop e s =
     (if txt_send_timeout s \<noteq> 0 \<and> millisHasNowPassed e (millis s) (txt_send_timeout s) then
        (emit OnSendTimeout s)\<lparr>txt_send_timeout := 0\<rparr>
      else s)"

section \<open>The operations as steps\<close>

text \<open>
  Every method of the two classes that changes the state, as one step. Between two
  calls time may pass (\<open>ClockAdvance\<close>). \<^verbatim>\<open>resetPathTo\<close> is given an entry of the contact
  table. The methods that only read (\<^verbatim>\<open>getPeerSharedSecret\<close>, \<^verbatim>\<open>searchChannelsByHash\<close>,
  \<^verbatim>\<open>searchContactsByPrefix\<close>, the iterators) are no steps.
\<close>

datatype chat_op =
    AdvertRecv packet identity u32 advert_data_parser
  | SearchPeersByHash bytes
  | PeerDataRecv packet payload_type nat bytes bytes
  | PeerPathRecv packet nat bytes bytes u8 payload_type bytes u8
  | AckRecv packet u32
  | GroupDataRecv packet payload_type group_channel bytes
  | SendMessage contact_info u8 bytes bytes
  | ResetPathTo nat
  | AddContact contact_info
  | AddChannel bytes
  | Loop
  | ClockAdvance u32 u32

fun chat_step :: "env \<Rightarrow> chat_op \<Rightarrow> base_chat_mesh \<Rightarrow> base_chat_mesh outcome" where
  "chat_step e (AdvertRecv pkt ident ts parser) s = Returns (onAdvertRecv e pkt ident ts parser s)"
| "chat_step e (SearchPeersByHash h) s = Returns (snd (searchPeersByHash e h s))"
| "chat_step e (PeerDataRecv pkt type sender_idx sec data) s = onPeerDataRecv e pkt type sender_idx sec data s"
| "chat_step e (PeerPathRecv pkt sender_idx sec pth pth_len extra_type extra extra_len) s =
     map_outcome snd (onPeerPathRecv e pkt sender_idx sec pth pth_len extra_type extra extra_len s)"
| "chat_step e (AckRecv pkt ack_crc) s = Returns (onAckRecv e pkt ack_crc s)"
| "chat_step e (GroupDataRecv pkt type channel data) s = Returns (onGroupDataRecv pkt type channel data s)"
| "chat_step e (SendMessage recipient attempt txt expected_ack) s =
     Returns (snd (sendMessage e recipient attempt txt expected_ack s))"
| "chat_step e (ResetPathTo k) s =
     Returns (if k < length (contacts s)
              then s\<lparr>contacts := (contacts s)[k := resetPathTo (contacts s ! k)]\<rparr> else s)"
| "chat_step e (AddContact contact) s = Returns (snd (addContact e contact s))"
| "chat_step e (AddChannel psk_base64) s = map_outcome snd (addChannel e psk_base64 s)"
| "chat_step e Loop s = Returns (loop e s)"
| "chat_step e (ClockAdvance r m) s = Returns (s\<lparr>rtc := r, millis := m\<rparr>)"

text \<open>
  Modelled from the spec: the constructor of \<^verbatim>\<open>BaseChatMesh\<close> (in \<^verbatim>\<open>BaseChatMesh.h\<close>)
  starts with no contact, no channel and no send timeout. The tables are arrays of
  \<^verbatim>\<open>MAX_CONTACTS\<close> and \<^verbatim>\<open>MAX_GROUP_CHANNELS\<close> entries with any content.
\<close>

definition chat_initial :: "env \<Rightarrow> base_chat_mesh \<Rightarrow> bool" where
  "chat_initial e s =
     (num_contacts s = 0 \<and> num_channels s = 0 \<and> txt_send_timeout s = 0 \<and> effects s = [] \<and>
      length (contacts s) = MAX_CONTACTS e \<and>
      length (channels s) = (case MAX_GROUP_CHANNELS e of None \<Rightarrow> 0 | Some m \<Rightarrow> m))"

inductive chat_reachable :: "env \<Rightarrow> base_chat_mesh \<Rightarrow> bool" for e :: env where
  chat_init: "chat_initial e s \<Longrightarrow> chat_reachable e s"
| chat_next: "chat_reachable e s \<Longrightarrow> chat_step e op s = Returns s' \<Longrightarrow> chat_reachable e s'"

datatype rep_op =
    R_AnonDataRecv packet payload_type identity bytes
  | R_SearchPeersByHash bytes
  | R_PeerDataRecv packet payload_type nat bytes bytes
  | R_PeerPathRecv nat bytes u8
  | R_SerialCommand bytes
  | R_ClockAdvance u32 u32

text \<open>
  A command typed at the serial console is handled with \<^verbatim>\<open>sender_timestamp = 0\<close>
  (\<^verbatim>\<open>loop()\<close> of \<^verbatim>\<open>main.cpp\<close>); its reply goes to \<^verbatim>\<open>char reply[160]\<close>.
\<close>

definition SERIAL_REPLY_BUF :: nat where
  "SERIAL_REPLY_BUF = 160"

fun rep_step :: "env \<Rightarrow> rep_op \<Rightarrow> my_mesh \<Rightarrow> my_mesh outcome" where
  "rep_step e (R_AnonDataRecv pkt type sender data) s = Returns (onAnonDataRecv e pkt type sender data s)"
| "rep_step e (R_SearchPeersByHash h) s = Returns (snd (searchPeersByHash_rep h s))"
| "rep_step e (R_PeerDataRecv pkt type sender_idx sec data) s = onPeerDataRecv_rep e pkt type sender_idx sec data s"
| "rep_step e (R_PeerPathRecv sender_idx pth pth_len) s =
     map_outcome snd (onPeerPathRecv_rep e sender_idx pth pth_len s)"
| "rep_step e (R_SerialCommand command) s =
     (case handleCommand e 0 command s of
        None \<Rightarrow> Reboots
      | Some (s', reply) \<Rightarrow> if SERIAL_REPLY_BUF < length reply + 1 then BufferOverrun else Returns s')"
| "rep_step e (R_ClockAdvance r m) s = Returns (s\<lparr>rtc := r, millis := m\<rparr>)"

text \<open>
  The constructor of \<^verbatim>\<open>MyMesh\<close> sets \<^verbatim>\<open>num_clients = 0\<close>; \<^verbatim>\<open>known_clients\<close> and
  \<^verbatim>\<open>matching_peer_indexes\<close> are arrays of \<^verbatim>\<open>MAX_CLIENTS\<close> entries with any content. After
  a reboot the constructor runs again.
\<close>

definition my_mesh_initial :: "my_mesh \<Rightarrow> bool" where
  "my_mesh_initial s =
     (num_clients s = 0 \<and> effects s = [] \<and> length (known_clients s) = MAX_CLIENTS \<and>
      length (r_matching_peer_indexes s) = MAX_CLIENTS)"

inductive rep_reachable :: "env \<Rightarrow> my_mesh \<Rightarrow> bool" for e :: env where
  rep_init: "my_mesh_initial s \<Longrightarrow> rep_reachable e s"
| rep_next: "rep_reachable e s \<Longrightarrow> rep_step e op s = Returns s' \<Longrightarrow> rep_reachable e s'"

section \<open>A concrete node, for the examples\<close>

text \<open>
  Small values for the parameters (three-byte keys, a toy digest that pads or cuts the
  message to four bytes) and two states: a repeater and a chat node right after start,
  the chat node knowing one contact.
\<close>

definition example_env :: env where
  "example_env =
     \<lparr>self_id = \<lparr>pub_key = [171, 1, 2]\<rparr>,
      calcSharedSecret = (\<lambda>other. map (\<lambda>b. b XOR 90) (pub_key other)),
      sha256_digest = (\<lambda>m. take 4 (rev m @ [0, 0, 0, 0])),
      MAX_CONTACTS = 2,
      MAX_GROUP_CHANNELS = Some 1,
      MAX_TEXT_LEN = 160,
      MAX_SEARCH_RESULTS = 8,
      MAX_PATH_SIZE = 8,
      NAME_SIZE = 32,
      getEstAirtimeFor = (\<lambda>p. 100),
      calcFloodTimeoutMillisFor = (\<lambda>t. 500 + 16 * t),
      calcDirectTimeoutMillisFor = (\<lambda>t n. 500 + 6 * t),
      millisHasNowPassed = (\<lambda>now t. t < now),
      processAck = (\<lambda>a. a = [1, 2, 3, 4]),
      decode_base64 = (\<lambda>t. t),
      self_advert_data = [2],
      repeater_stats = [],
      clock_text = (\<lambda>t. bytes_of ''00:16 - 1/1/1970 UTC'')\<rparr>"

definition example_peer :: identity where
  "example_peer = \<lparr>pub_key = [205, 3, 4]\<rparr>"

definition example_client :: client_info where
  "example_client =
     \<lparr>cl_id = \<lparr>pub_key = []\<rparr>, last_timestamp = 0, secret = [], cl_out_path_len = 0, cl_out_path = []\<rparr>"

definition example_repeater :: my_mesh where
  "example_repeater =
     \<lparr>rtc = 1000, millis = 5000, pool_free = 8, effects = [],
      num_clients = 0,
      known_clients = [example_client, example_client, example_client, example_client],
      r_matching_peer_indexes = [0, 0, 0, 0],
      reply_data = [0, 0, 0, 0, 0, 0, 0, 0],
      airtime_factor = bytes_of ''1.0''\<rparr>"

definition example_contact :: contact_info where
  "example_contact =
     \<lparr>c_id = example_peer, c_name = bytes_of ''peer'', c_type = 1, c_out_path_len = - 1,
      c_out_path = [], last_advert_timestamp = 2000, shared_secret = [151, 89, 94]\<rparr>"

definition example_chat :: base_chat_mesh where
  "example_chat =
     \<lparr>rtc = 1000, millis = 5000, pool_free = 8, effects = [],
      num_contacts = 1,
      contacts = [example_contact, example_contact],
      matching_peer_indexes = [0, 0, 0, 0, 0, 0, 0, 0],
      num_channels = 0,
      channels = [\<lparr>gc_hash = [], gc_secret = []\<rparr>],
      txt_send_timeout = 0\<rparr>"

text \<open>The repeater after a login of the peer with timestamp 1000.\<close>

definition example_admin_repeater :: my_mesh where
  "example_admin_repeater =
     example_repeater
       \<lparr>num_clients := 1,
        known_clients :=
          [\<lparr>cl_id = example_peer, last_timestamp = 1000, secret = [151, 89, 94],
            cl_out_path_len = - 1, cl_out_path = []\<rparr>,
           example_client, example_client, example_client]\<rparr>"

section \<open>The specification's words, for comparison\<close>

text \<open>
  The reply to a login as the specification words it: the current time (4 bytes)
  followed by \<^verbatim>\<open>OK\<close>, under the client's shared secret, by path return and flood when the
  request came by flood, else direct when the client has an out path, else by flood.
\<close>

definition spec_admin_reply :: "packet \<Rightarrow> identity \<Rightarrow> client_info \<Rightarrow> u32 \<Rightarrow> effect" where
  "spec_admin_reply pkt sender client now =
     (if isRouteFlood pkt then
        SendFlood (PathReturn sender (secret client) (take (unat (path_len pkt)) (path pkt))
                     PAYLOAD_TYPE_RESPONSE (u32_bytes now @ bytes_of ''OK'')) 0
      else if 0 \<le> cl_out_path_len client then
        SendDirect (Datagram PAYLOAD_TYPE_RESPONSE sender (secret client) (u32_bytes now @ bytes_of ''OK''))
          (take (nat (cl_out_path_len client)) (cl_out_path client)) 0
      else
        SendFlood (Datagram PAYLOAD_TYPE_RESPONSE sender (secret client) (u32_bytes now @ bytes_of ''OK'')) 0)"


section \<open>The \<^verbatim>\<open>clock sync\<close> command\<close>

lemma dropWhile_spaces:
  "dropWhile (\<lambda>b. b = of_char CHR '' '') (replicate k (of_char CHR '' '') @ bytes_of ''clock sync'' @ rest)
     = bytes_of ''clock sync'' @ rest"
  by (induction k) (simp_all add: bytes_of_def)

text \<open>
  Claim C3. \<^verbatim>\<open>handleCommand\<close> on the text \<^verbatim>\<open>clock sync\<close> (after any leading spaces, whatever
  follows it): when \<open>sender_timestamp\<close> is strictly greater than the RTC's time, the RTC
  is set to \<open>sender_timestamp + 1\<close> (a 32-bit sum) and the reply is \<^verbatim>\<open>OK - clock set\<close>;
  when it is equal or less, the reply is \<^verbatim>\<open>ERR: clock cannot go backwards\<close> and the state,
  the clock with it, is unchanged. The call always returns.
\<close>

theorem clock_sync_contract:
  "handleCommand e sender_timestamp (replicate k (of_char CHR '' '') @ bytes_of ''clock sync'' @ rest) s =
     (if rtc s < sender_timestamp
      then Some (s\<lparr>rtc := sender_timestamp + 1\<rparr>, bytes_of ''OK - clock set'')
      else Some (s, bytes_of ''ERR: clock cannot go backwards''))"
  unfolding handleCommand_def dropWhile_spaces
  by (simp add: bytes_of_def getCurrentTime_def setCurrentTime_def)

theorem clock_sync_contract_witness:
  "handleCommand example_env 2000 (bytes_of ''clock sync'') example_repeater =
     Some (example_repeater\<lparr>rtc := 2001\<rparr>, bytes_of ''OK - clock set'')
   \<and> handleCommand example_env 1000 (bytes_of ''clock sync'') example_repeater =
     Some (example_repeater, bytes_of ''ERR: clock cannot go backwards'')"
  using clock_sync_contract [of example_env 2000 0 "[]" example_repeater]
        clock_sync_contract [of example_env 1000 0 "[]" example_repeater]
  by (simp add: example_repeater_def)

section \<open>An anonymous request with the wrong password\<close>

text \<open>
  Claim C7. An \<^verbatim>\<open>ANON_REQ\<close> whose payload after the 4-byte timestamp does not begin with
  the admin password leaves the whole state of the repeater as it was: no reply packet
  is built or sent, no entry is put into \<^verbatim>\<open>known_clients\<close>, no client's stored state
  changes. (The same holds for any other payload type handed to \<^verbatim>\<open>onAnonDataRecv\<close>.)
\<close>

theorem wrong_password_ignored:
  "take (length ADMIN_PASSWORD) (drop 4 data) \<noteq> ADMIN_PASSWORD \<Longrightarrow>
     onAnonDataRecv e pkt type sender data s = s"
  by (simp add: onAnonDataRecv_def)

theorem wrong_password_ignored_witness:
  "take (length ADMIN_PASSWORD) (drop 4 (u32_bytes 5000 @ bytes_of ''letmein!'')) \<noteq> ADMIN_PASSWORD
   \<and> onAnonDataRecv example_env \<lparr>isRouteFlood = True, path = [], path_len = 0\<rparr> PAYLOAD_TYPE_ANON_REQ
        example_peer (u32_bytes 5000 @ bytes_of ''letmein!'') example_repeater = example_repeater"
proof -
  have h: "take (length ADMIN_PASSWORD) (drop 4 (u32_bytes 5000 @ bytes_of ''letmein!'')) \<noteq> ADMIN_PASSWORD"
    by (simp add: ADMIN_PASSWORD_def bytes_of_def u32_bytes_def)
  show ?thesis using h wrong_password_ignored [OF h] by simp
qed

section \<open>Replayed requests and text messages\<close>

lemma ex_le32: "le32 [232, 3, 0, 0, 0, 104, 101, 108, 108, 111] = 1000"
  by (simp add: le32_def)

text \<open>
  Claim C1, as the code has it. In the repeater (\<^verbatim>\<open>MyMesh::onPeerDataRecv\<close>) a \<^verbatim>\<open>REQ\<close> or
  \<^verbatim>\<open>TXT_MSG\<close> whose 4-byte timestamp is not above the \<^verbatim>\<open>last_timestamp\<close> stored for the client
  is dropped: the call returns the state it was given, so no ACK and no reply is built
  or sent and nothing stored changes. \<^verbatim>\<open>BaseChatMesh::onPeerDataRecv\<close> keeps no timestamp of
  a contact's messages and compares none: every plain text message (more than 5 bytes,
  \<^verbatim>\<open>flags >> 2 = 0\<close>) of a known contact is handed to \<^verbatim>\<open>onMessageRecv\<close> and, when a packet can
  be taken from the pool, acknowledged, whatever its timestamp; the contact table stays
  as it is.
\<close>

theorem replay_dropped_by_repeater:
  "(sender_idx < length (r_matching_peer_indexes s) \<and>
    (type = PAYLOAD_TYPE_REQ \<or> type = PAYLOAD_TYPE_TXT_MSG) \<and>
    le32 data \<le> last_timestamp (known_clients s ! nat (r_matching_peer_indexes s ! sender_idx))
    \<longrightarrow> onPeerDataRecv_rep e pkt type sender_idx sec data s = Returns s)
   \<and>
   (sender_idx' < length (matching_peer_indexes c) \<and>
    0 \<le> matching_peer_indexes c ! sender_idx' \<and>
    matching_peer_indexes c ! sender_idx' < num_contacts c \<and>
    5 < length data' \<and> drop_bit 2 (data' ! 4) = 0
    \<longrightarrow> (let from = contacts c ! nat (matching_peer_indexes c ! sender_idx');
             ack_hash = calc_ack_hash e data' (pub_key (c_id from))
         in \<exists>c'. onPeerDataRecv e pkt' PAYLOAD_TYPE_TXT_MSG sender_idx' sec' data' c = Returns c' \<and>
              contacts c' = contacts c \<and>
              effects c' =
                effects c @
                OnMessageRecv from (isRouteFlood pkt') (le32 data') (cstr (drop 5 data')) #
                (if pool_free c = 0 then []
                 else if isRouteFlood pkt' then
                   [SendFlood (PathReturn (c_id from) sec' (take (unat (path_len pkt')) (path pkt'))
                                 PAYLOAD_TYPE_ACK ack_hash) 0]
                 else if c_out_path_len from < 0 then [SendFlood (Ack ack_hash) 0]
                 else [SendDirect (Ack ack_hash) (take (nat (c_out_path_len from)) (c_out_path from)) 0])))"
proof (intro conjI impI)
  assume "sender_idx < length (r_matching_peer_indexes s) \<and>
    (type = PAYLOAD_TYPE_REQ \<or> type = PAYLOAD_TYPE_TXT_MSG) \<and>
    le32 data \<le> last_timestamp (known_clients s ! nat (r_matching_peer_indexes s ! sender_idx))"
  then show "onPeerDataRecv_rep e pkt type sender_idx sec data s = Returns s"
    by (auto simp: onPeerDataRecv_rep_def on_req_def on_cli_text_def Let_def not_less)
next
  assume "sender_idx' < length (matching_peer_indexes c) \<and>
    0 \<le> matching_peer_indexes c ! sender_idx' \<and>
    matching_peer_indexes c ! sender_idx' < num_contacts c \<and>
    5 < length data' \<and> drop_bit 2 (data' ! 4) = 0"
  then show "let from = contacts c ! nat (matching_peer_indexes c ! sender_idx');
             ack_hash = calc_ack_hash e data' (pub_key (c_id from))
         in \<exists>c'. onPeerDataRecv e pkt' PAYLOAD_TYPE_TXT_MSG sender_idx' sec' data' c = Returns c' \<and>
              contacts c' = contacts c \<and>
              effects c' =
                effects c @
                OnMessageRecv from (isRouteFlood pkt') (le32 data') (cstr (drop 5 data')) #
                (if pool_free c = 0 then []
                 else if isRouteFlood pkt' then
                   [SendFlood (PathReturn (c_id from) sec' (take (unat (path_len pkt')) (path pkt'))
                                 PAYLOAD_TYPE_ACK ack_hash) 0]
                 else if c_out_path_len from < 0 then [SendFlood (Ack ack_hash) 0]
                 else [SendDirect (Ack ack_hash) (take (nat (c_out_path_len from)) (c_out_path from)) 0])"
    by (simp add: onPeerDataRecv_def send_ack_def Let_def createPathReturn_def createAck_def create_def
          pool_alloc_def sendFlood_def sendDirect_def emit_def not_le)
qed

theorem replay_dropped_by_repeater_witness:
  "onPeerDataRecv_rep example_env \<lparr>isRouteFlood = False, path = [], path_len = 0\<rparr> PAYLOAD_TYPE_TXT_MSG 0
       [151, 89, 94] [232, 3, 0, 0, 0, 104, 101, 108, 108, 111] example_admin_repeater
     = Returns example_admin_repeater
   \<and> (\<exists>c'. onPeerDataRecv example_env \<lparr>isRouteFlood = False, path = [], path_len = 0\<rparr> PAYLOAD_TYPE_TXT_MSG 0
              [151, 89, 94] [232, 3, 0, 0, 0, 104, 101, 108, 108, 111] example_chat = Returns c'
         \<and> effects c' =
             [OnMessageRecv example_contact False 1000 [104, 101, 108, 108, 111],
              SendFlood (Ack (calc_ack_hash example_env [232, 3, 0, 0, 0, 104, 101, 108, 108, 111] [205, 3, 4])) 0])"
  using replay_dropped_by_repeater
    [where s = example_admin_repeater and sender_idx = 0 and type = PAYLOAD_TYPE_TXT_MSG
       and data = "[232, 3, 0, 0, 0, 104, 101, 108, 108, 111]" and e = example_env
       and pkt = "\<lparr>isRouteFlood = False, path = [], path_len = 0\<rparr>" and sec = "[151, 89, 94]"
       and c = example_chat and sender_idx' = 0
       and data' = "[232, 3, 0, 0, 0, 104, 101, 108, 108, 111]"
       and pkt' = "\<lparr>isRouteFlood = False, path = [], path_len = 0\<rparr>" and sec' = "[151, 89, 94]"]
  by (auto simp: example_admin_repeater_def example_repeater_def example_chat_def example_contact_def
        example_peer_def ex_le32 cstr_def Let_def)

text \<open>
  Claim C1 as stated fails for \<^verbatim>\<open>BaseChatMesh::onPeerDataRecv\<close>: a text message with
  timestamp 1000 from a contact whose only stored timestamp is 2000 is acknowledged, and
  so is the same message when it is delivered a second time.
\<close>

theorem chat_acks_replayed_text:
  "le32 [232, 3, 0, 0, 0, 104, 101, 108, 108, 111] \<le> last_advert_timestamp (contacts example_chat ! 0)
   \<and> onPeerDataRecv example_env \<lparr>isRouteFlood = False, path = [], path_len = 0\<rparr> PAYLOAD_TYPE_TXT_MSG 0
        [151, 89, 94] [232, 3, 0, 0, 0, 104, 101, 108, 108, 111] example_chat
      = Returns (example_chat
          \<lparr>pool_free := 7,
           effects := [OnMessageRecv example_contact False 1000 [104, 101, 108, 108, 111],
                       SendFlood (Ack [4, 3, 205, 111]) 0]\<rparr>)
   \<and> onPeerDataRecv example_env \<lparr>isRouteFlood = False, path = [], path_len = 0\<rparr> PAYLOAD_TYPE_TXT_MSG 0
        [151, 89, 94] [232, 3, 0, 0, 0, 104, 101, 108, 108, 111]
        (example_chat
          \<lparr>pool_free := 7,
           effects := [OnMessageRecv example_contact False 1000 [104, 101, 108, 108, 111],
                       SendFlood (Ack [4, 3, 205, 111]) 0]\<rparr>)
      = Returns (example_chat
          \<lparr>pool_free := 6,
           effects := [OnMessageRecv example_contact False 1000 [104, 101, 108, 108, 111],
                       SendFlood (Ack [4, 3, 205, 111]) 0,
                       OnMessageRecv example_contact False 1000 [104, 101, 108, 108, 111],
                       SendFlood (Ack [4, 3, 205, 111]) 0]\<rparr>)"
  by (simp add: onPeerDataRecv_def send_ack_def Let_def createAck_def create_def
        pool_alloc_def sendFlood_def emit_def example_chat_def example_contact_def example_peer_def
        example_env_def calc_ack_hash_def sha256_def strlen_def cstr_def le32_def)

section \<open>The login of an admin client\<close>

lemma first_match_Some:
  "first_match P xs k = Some i \<Longrightarrow> k \<le> i \<and> i - k < length xs \<and> P (xs ! (i - k))"
proof (induction xs arbitrary: k)
  case Nil
  then show ?case by simp
next
  case (Cons x xs)
  show ?case
  proof (cases "P x")
    case True
    with Cons.prems show ?thesis by simp
  next
    case False
    with Cons.prems have "first_match P xs (Suc k) = Some i" by simp
    from Cons.IH [OF this] show ?thesis by (auto simp: Suc_diff_le)
  qed
qed

lemma first_match_None: "first_match P xs k = None \<longleftrightarrow> (\<forall>x \<in> set xs. \<not> P x)"
  by (induction xs arbitrary: k) auto

lemma lookup_client_Some:
  "lookup_client s ident = Some i \<Longrightarrow>
     i < nat (num_clients s) \<and> i < length (known_clients s) \<and> matches ident (cl_id (known_clients s ! i))"
  unfolding lookup_client_def by (drule first_match_Some) auto

lemma reply_ok: "take 6 (memcpy_front (u32_bytes now @ bytes_of ''OK'') buf) = u32_bytes now @ bytes_of ''OK''"
  by (simp add: memcpy_front_def u32_bytes_def bytes_of_def)

lemma lookup_client_None:
  "lookup_client s ident = None \<longleftrightarrow>
     (\<forall>c \<in> set (take (nat (num_clients s)) (known_clients s)). \<not> matches ident (cl_id c))"
  by (simp add: lookup_client_def first_match_None)

text \<open>
  Claim C2, as the code has it. For an \<^verbatim>\<open>ANON_REQ\<close> whose payload after the 4-byte timestamp
  begins with the admin password, \<^verbatim>\<open>onAnonDataRecv\<close> first looks the sender up
  (\<^verbatim>\<open>putClient\<close>) and, when it is not in the table and the table has room, inserts it with
  its ECDH shared secret, \<^verbatim>\<open>out_path_len = -1\<close> and \<^verbatim>\<open>last_timestamp = 0\<close>; only then the
  timestamp is compared. The five cases, with the state after the call in full:
  a known sender with a newer timestamp, and an unknown sender with a timestamp above 0
  while the table has room, get \<^verbatim>\<open>last_timestamp := timestamp\<close> and, when a packet can be
  taken from the pool, the reply of the specification; a known sender with a timestamp
  not above the stored one, and an unknown sender when the table is full, change
  nothing and get no reply; an unknown sender with timestamp 0 while the table has room
  gets no reply, but its new entry stays in the table.
\<close>

theorem admin_login:
  assumes pw: "take (length ADMIN_PASSWORD) (drop 4 data) = ADMIN_PASSWORD"
    and arr: "length (known_clients s) = MAX_CLIENTS"
  shows
    "(let s' = onAnonDataRecv e pkt PAYLOAD_TYPE_ANON_REQ sender data s;
          n = nat (num_clients s);
          new = (known_clients s ! n)
                  \<lparr>cl_id := sender, last_timestamp := 0, secret := calcSharedSecret e sender,
                   cl_out_path_len := - 1\<rparr>;
          ok = memcpy_front (u32_bytes (rtc s) @ bytes_of ''OK'') (reply_data s)
      in
        (\<forall>i. lookup_client s sender = Some i \<and> last_timestamp (known_clients s ! i) < le32 data \<longrightarrow>
           s' = s\<lparr>pool_free := pool_free s - 1,
                  effects := effects s @
                    (if pool_free s = 0 then []
                     else [spec_admin_reply pkt sender (known_clients s ! i) (rtc s)]),
                  known_clients := (known_clients s)[i := (known_clients s ! i)\<lparr>last_timestamp := le32 data\<rparr>],
                  reply_data := ok\<rparr>) \<and>
        (lookup_client s sender = None \<and> num_clients s < int MAX_CLIENTS \<and> 0 < le32 data \<longrightarrow>
           s' = s\<lparr>pool_free := pool_free s - 1,
                  effects := effects s @
                    (if pool_free s = 0 then [] else [spec_admin_reply pkt sender new (rtc s)]),
                  num_clients := num_clients s + 1,
                  known_clients := (known_clients s)[n := new\<lparr>last_timestamp := le32 data\<rparr>],
                  reply_data := ok\<rparr>) \<and>
        (\<forall>i. lookup_client s sender = Some i \<and> le32 data \<le> last_timestamp (known_clients s ! i) \<longrightarrow>
           s' = s) \<and>
        (lookup_client s sender = None \<and> int MAX_CLIENTS \<le> num_clients s \<longrightarrow> s' = s) \<and>
        (lookup_client s sender = None \<and> num_clients s < int MAX_CLIENTS \<and> le32 data = 0 \<longrightarrow>
           s' = s\<lparr>num_clients := num_clients s + 1, known_clients := (known_clients s)[n := new]\<rparr>))"
proof -
  have known_new: "onAnonDataRecv e pkt PAYLOAD_TYPE_ANON_REQ sender data s =
      s\<lparr>pool_free := pool_free s - 1,
        effects := effects s @
          (if pool_free s = 0 then [] else [spec_admin_reply pkt sender (known_clients s ! i) (rtc s)]),
        known_clients := (known_clients s)[i := (known_clients s ! i)\<lparr>last_timestamp := le32 data\<rparr>],
        reply_data := memcpy_front (u32_bytes (rtc s) @ bytes_of ''OK'') (reply_data s)\<rparr>"
    if "lookup_client s sender = Some i" "last_timestamp (known_clients s ! i) < le32 data" for i
  proof -
    from that(1) have "i < length (known_clients s)" by (simp add: lookup_client_Some)
    with that pw show ?thesis
      by (simp add: onAnonDataRecv_def putClient_def Let_def not_le send_response_def getCurrentTime_def
            createPathReturn_def createDatagram_def create_def pool_alloc_def sendFlood_def sendDirect_def
            emit_def spec_admin_reply_def reply_ok)
  qed
  have known_old: "onAnonDataRecv e pkt PAYLOAD_TYPE_ANON_REQ sender data s = s"
    if "lookup_client s sender = Some i" "le32 data \<le> last_timestamp (known_clients s ! i)" for i
    using that pw by (simp add: onAnonDataRecv_def putClient_def)
  have full: "onAnonDataRecv e pkt PAYLOAD_TYPE_ANON_REQ sender data s = s"
    if "lookup_client s sender = None" "int MAX_CLIENTS \<le> num_clients s"
    using that pw by (simp add: onAnonDataRecv_def putClient_def)
  have n: "nat (num_clients s) < length (known_clients s)" if "num_clients s < int MAX_CLIENTS"
    using that arr by (simp add: MAX_CLIENTS_def)
  have fresh_zero: "onAnonDataRecv e pkt PAYLOAD_TYPE_ANON_REQ sender data s =
      s\<lparr>num_clients := num_clients s + 1,
        known_clients := (known_clients s)[nat (num_clients s) := (known_clients s ! nat (num_clients s))
                  \<lparr>cl_id := sender, last_timestamp := 0, secret := calcSharedSecret e sender,
                   cl_out_path_len := - 1\<rparr>]\<rparr>"
    if "lookup_client s sender = None" "num_clients s < int MAX_CLIENTS" "le32 data = 0"
    using that pw n by (simp add: onAnonDataRecv_def putClient_def Let_def)
  have fresh_new: "onAnonDataRecv e pkt PAYLOAD_TYPE_ANON_REQ sender data s =
      s\<lparr>pool_free := pool_free s - 1,
        effects := effects s @
          (if pool_free s = 0 then []
           else [spec_admin_reply pkt sender ((known_clients s ! nat (num_clients s))
                  \<lparr>cl_id := sender, last_timestamp := 0, secret := calcSharedSecret e sender,
                   cl_out_path_len := - 1\<rparr>) (rtc s)]),
        num_clients := num_clients s + 1,
        known_clients := (known_clients s)[nat (num_clients s) := (known_clients s ! nat (num_clients s))
                  \<lparr>cl_id := sender, last_timestamp := 0, secret := calcSharedSecret e sender,
                   cl_out_path_len := - 1, last_timestamp := le32 data\<rparr>],
        reply_data := memcpy_front (u32_bytes (rtc s) @ bytes_of ''OK'') (reply_data s)\<rparr>"
    if "lookup_client s sender = None" "num_clients s < int MAX_CLIENTS" "0 < le32 data"
    using that pw n
    by (simp add: onAnonDataRecv_def putClient_def Let_def not_le send_response_def getCurrentTime_def
            createPathReturn_def createDatagram_def create_def pool_alloc_def sendFlood_def sendDirect_def
            emit_def spec_admin_reply_def reply_ok word_gt_0)
  show ?thesis
    unfolding Let_def
    using known_new known_old full fresh_zero fresh_new by simp
qed

theorem admin_login_witness:
  "onAnonDataRecv example_env \<lparr>isRouteFlood = True, path = [7, 9], path_len = 2\<rparr> PAYLOAD_TYPE_ANON_REQ
        example_peer [136, 19, 0, 0, 104, 94, 40, 107, 108, 64, 35, 41] example_repeater
     = example_repeater
         \<lparr>pool_free := 7,
          effects := [SendFlood (PathReturn example_peer [151, 89, 94] [7, 9] PAYLOAD_TYPE_RESPONSE
                                   [232, 3, 0, 0, 79, 75]) 0],
          num_clients := 1,
          known_clients :=
            [\<lparr>cl_id = example_peer, last_timestamp = 5000, secret = [151, 89, 94],
              cl_out_path_len = - 1, cl_out_path = []\<rparr>,
             example_client, example_client, example_client],
          reply_data := [232, 3, 0, 0, 79, 75, 0, 0]\<rparr>"
proof -
  have pw: "take (length ADMIN_PASSWORD) (drop 4 [136, 19, 0, 0, 104, 94, 40, 107, 108, 64, 35, 41])
              = ADMIN_PASSWORD"
    by (simp add: ADMIN_PASSWORD_def bytes_of_def)
  have arr: "length (known_clients example_repeater) = MAX_CLIENTS"
    by (simp add: example_repeater_def MAX_CLIENTS_def)
  have none: "lookup_client example_repeater example_peer = None"
    by (simp add: lookup_client_def example_repeater_def)
  have ts: "le32 [136, 19, 0, 0, 104, 94, 40, 107, 108, 64, 35, 41] = 5000"
    by (simp add: le32_def)
  show ?thesis
    using admin_login [OF pw arr, of example_env "\<lparr>isRouteFlood = True, path = [7, 9], path_len = 2\<rparr>"
                         example_peer] none
    by (simp add: Let_def ts MAX_CLIENTS_def example_repeater_def example_client_def example_env_def
          example_peer_def spec_admin_reply_def memcpy_front_def u32_bytes_def bytes_of_def)
qed

text \<open>
  Claim C2 as stated fails: a first login with timestamp 0 is dropped without a reply,
  yet the sender has been inserted into the client table; and with an empty packet pool
  a login with a newer timestamp is accepted without any reply being sent.
\<close>

theorem login_inserts_before_replay_check:
  "lookup_client example_repeater example_peer = None
   \<and> le32 (u32_bytes 0 @ ADMIN_PASSWORD) = 0
   \<and> onAnonDataRecv example_env \<lparr>isRouteFlood = True, path = [7, 9], path_len = 2\<rparr> PAYLOAD_TYPE_ANON_REQ
        example_peer (u32_bytes 0 @ ADMIN_PASSWORD) example_repeater
     = example_repeater
         \<lparr>num_clients := 1,
          known_clients :=
            [\<lparr>cl_id = example_peer, last_timestamp = 0, secret = [151, 89, 94],
              cl_out_path_len = - 1, cl_out_path = []\<rparr>,
             example_client, example_client, example_client]\<rparr>
   \<and> effects (onAnonDataRecv example_env \<lparr>isRouteFlood = True, path = [7, 9], path_len = 2\<rparr>
                PAYLOAD_TYPE_ANON_REQ example_peer (u32_bytes 5000 @ ADMIN_PASSWORD)
                (example_repeater\<lparr>pool_free := 0\<rparr>)) = []"
  by (simp add: onAnonDataRecv_def putClient_def lookup_client_def Let_def send_response_def
        createPathReturn_def create_def pool_alloc_def getCurrentTime_def
        example_repeater_def example_client_def example_env_def example_peer_def
        MAX_CLIENTS_def ADMIN_PASSWORD_def bytes_of_def u32_bytes_def le32_def)

section \<open>The ACK hash on both sides\<close>

lemma le32_u32_bytes: "le32 (u32_bytes w @ rest) = w"
  unfolding le32_def u32_bytes_def
  apply simp
  apply (rule bit_word_eqI)
  subgoal for n
    apply (cases "n < 8"; cases "n < 16"; cases "n < 24")
    apply (auto simp: bit_simps)
    done
  done



lemma length_u32_bytes: "length (u32_bytes w) = 4"
  by (simp add: u32_bytes_def)


lemma take_strlen_cstr: "take (strlen t) t = cstr t"
  unfolding strlen_def cstr_def by (induction t) auto


lemma compose_payload:
  "take (5 + strlen msg) (u32_bytes ts @ [f] @ cstr msg @ [0]) = u32_bytes ts @ [f] @ cstr msg"
  by (simp add: length_u32_bytes strlen_def)







section \<open>Adverts and the contact table\<close>

lemma lookup_contact_Some:
  "lookup_contact s ident = Some i \<Longrightarrow>
     i < nat (num_contacts s) \<and> i < length (contacts s) \<and> matches ident (c_id (contacts s ! i))"
  unfolding lookup_contact_def by (drule first_match_Some) auto

lemma lookup_contact_None:
  "lookup_contact s ident = None \<longleftrightarrow>
     (\<forall>c \<in> set (take (nat (num_contacts s)) (contacts s)). \<not> matches ident (c_id c))"
  by (simp add: lookup_contact_def first_match_None)

text \<open>
  Claim C5. \<^verbatim>\<open>onAdvertRecv\<close> on a contact table of \<^verbatim>\<open>MAX_CONTACTS\<close> entries: when the
  \<^verbatim>\<open>app_data\<close> does not parse or has no name, or the search finds the sender among the
  contacts with a \<^verbatim>\<open>last_advert_timestamp\<close> not below the advert's timestamp, or the sender is
  not found and \<^verbatim>\<open>num_contacts\<close> has reached \<^verbatim>\<open>MAX_CONTACTS\<close>, the state is unchanged (the
  contact table is as it was, \<^verbatim>\<open>onDiscoveredContact\<close> is not called). Otherwise the contact
  found gets the name (cut to the size of the field), the type and
  \<^verbatim>\<open>last_advert_timestamp := timestamp\<close>, and \<^verbatim>\<open>onDiscoveredContact\<close> is called with it and
  \<^verbatim>\<open>is_new = false\<close>; or, when none is found, a contact is created in the next free entry
  with the sender's identity, the ECDH shared secret and \<^verbatim>\<open>out_path_len = -1\<close>, updated the
  same way, \<^verbatim>\<open>num_contacts\<close> grows by one, and \<^verbatim>\<open>onDiscoveredContact\<close> is called with it and
  \<^verbatim>\<open>is_new = true\<close>. The search takes the first entry whose public key is the sender's
  (\<open>lookup_contact_Some\<close>, \<open>lookup_contact_None\<close>).
\<close>

theorem advert_contract:
  assumes arr: "length (contacts s) = MAX_CONTACTS e"
    and cnt: "0 \<le> num_contacts s"
  shows
    "(let s' = onAdvertRecv e pkt ident ts p s;
          n = nat (num_contacts s);
          upd = (\<lambda>c. c\<lparr>c_name := take (NAME_SIZE e - 1) (cstr (getName p)), c_type := getType p,
                         last_advert_timestamp := ts\<rparr>);
          new = (contacts s ! n)
                  \<lparr>c_id := ident, c_out_path_len := - 1, shared_secret := calcSharedSecret e ident\<rparr>
      in
        (\<not> (isValid p \<and> hasName p) \<longrightarrow> s' = s) \<and>
        (\<forall>i. lookup_contact s ident = Some i \<and> ts \<le> last_advert_timestamp (contacts s ! i)
              \<longrightarrow> s' = s) \<and>
        (lookup_contact s ident = None \<and> int (MAX_CONTACTS e) \<le> num_contacts s \<longrightarrow> s' = s) \<and>
        (\<forall>i. isValid p \<and> hasName p \<and> lookup_contact s ident = Some i \<and>
              last_advert_timestamp (contacts s ! i) < ts
              \<longrightarrow> s' = s\<lparr>effects := effects s @ [OnDiscoveredContact (upd (contacts s ! i)) False],
                         contacts := (contacts s)[i := upd (contacts s ! i)]\<rparr>) \<and>
        (isValid p \<and> hasName p \<and> lookup_contact s ident = None \<and> num_contacts s < int (MAX_CONTACTS e)
           \<longrightarrow> s' = s\<lparr>effects := effects s @ [OnDiscoveredContact (upd new) True],
                      num_contacts := num_contacts s + 1,
                      contacts := (contacts s)[n := upd new]\<rparr>))"
proof -
  have n: "nat (num_contacts s) < length (contacts s)" if "num_contacts s < int (MAX_CONTACTS e)"
    using that arr cnt by simp
  show ?thesis
    unfolding Let_def
    by (auto simp: onAdvertRecv_def update_contact_def emit_def Let_def n not_le
          dest: lookup_contact_Some)
qed

theorem advert_contract_witness:
  "onAdvertRecv example_env \<lparr>isRouteFlood = True, path = [], path_len = 0\<rparr> \<lparr>pub_key = [9, 9, 9]\<rparr> 3000
      \<lparr>isValid = True, hasName = True, getName = bytes_of ''bob'', getType = 1\<rparr> example_chat
     = example_chat
         \<lparr>effects := [OnDiscoveredContact
                        \<lparr>c_id = \<lparr>pub_key = [9, 9, 9]\<rparr>, c_name = bytes_of ''bob'', c_type = 1,
                         c_out_path_len = - 1, c_out_path = [], last_advert_timestamp = 3000,
                         shared_secret = [83, 83, 83]\<rparr> True],
          num_contacts := 2,
          contacts := [example_contact,
                       \<lparr>c_id = \<lparr>pub_key = [9, 9, 9]\<rparr>, c_name = bytes_of ''bob'', c_type = 1,
                        c_out_path_len = - 1, c_out_path = [], last_advert_timestamp = 3000,
                        shared_secret = [83, 83, 83]\<rparr>]\<rparr>
   \<and> onAdvertRecv example_env \<lparr>isRouteFlood = True, path = [], path_len = 0\<rparr> example_peer 2000
      \<lparr>isValid = True, hasName = True, getName = bytes_of ''bob'', getType = 1\<rparr> example_chat
     = example_chat"
proof -
  have arr: "length (contacts example_chat) = MAX_CONTACTS example_env"
    by (simp add: example_chat_def example_env_def)
  have cnt: "0 \<le> num_contacts example_chat"
    by (simp add: example_chat_def)
  have none: "lookup_contact example_chat \<lparr>pub_key = [9, 9, 9]\<rparr> = None"
    by (simp add: lookup_contact_def example_chat_def example_contact_def example_peer_def matches_def)
  have some: "lookup_contact example_chat example_peer = Some 0"
    by (simp add: lookup_contact_def example_chat_def example_contact_def example_peer_def matches_def)
  have old: "(2000 :: u32) \<le> last_advert_timestamp (contacts example_chat ! 0)"
    by (simp add: example_chat_def example_contact_def)
  have room: "num_contacts example_chat < int (MAX_CONTACTS example_env)"
    by (simp add: example_chat_def example_env_def)
  have a: "onAdvertRecv example_env \<lparr>isRouteFlood = True, path = [], path_len = 0\<rparr> \<lparr>pub_key = [9, 9, 9]\<rparr> 3000
      \<lparr>isValid = True, hasName = True, getName = bytes_of ''bob'', getType = 1\<rparr> example_chat
     = example_chat
         \<lparr>effects := [OnDiscoveredContact
                        \<lparr>c_id = \<lparr>pub_key = [9, 9, 9]\<rparr>, c_name = bytes_of ''bob'', c_type = 1,
                         c_out_path_len = - 1, c_out_path = [], last_advert_timestamp = 3000,
                         shared_secret = [83, 83, 83]\<rparr> True],
          num_contacts := 2,
          contacts := [example_contact,
                       \<lparr>c_id = \<lparr>pub_key = [9, 9, 9]\<rparr>, c_name = bytes_of ''bob'', c_type = 1,
                        c_out_path_len = - 1, c_out_path = [], last_advert_timestamp = 3000,
                        shared_secret = [83, 83, 83]\<rparr>]\<rparr>"
    using advert_contract [OF arr cnt, of "\<lparr>isRouteFlood = True, path = [], path_len = 0\<rparr>"
        "\<lparr>pub_key = [9, 9, 9]\<rparr>" 3000
        "\<lparr>isValid = True, hasName = True, getName = bytes_of ''bob'', getType = 1\<rparr>"] none room
    by (simp add: Let_def example_chat_def example_env_def example_contact_def example_peer_def
          cstr_def bytes_of_def)
  have b: "onAdvertRecv example_env \<lparr>isRouteFlood = True, path = [], path_len = 0\<rparr> example_peer 2000
      \<lparr>isValid = True, hasName = True, getName = bytes_of ''bob'', getType = 1\<rparr> example_chat
     = example_chat"
    using advert_contract [OF arr cnt, of "\<lparr>isRouteFlood = True, path = [], path_len = 0\<rparr>"
        example_peer 2000
        "\<lparr>isValid = True, hasName = True, getName = bytes_of ''bob'', getType = 1\<rparr>"] some old
    by (simp add: Let_def)
  from a b show ?thesis by (rule conjI)
qed

section \<open>Sending a text message\<close>

text \<open>
  Claim C6. \<^verbatim>\<open>sendMessage\<close> returns \<^verbatim>\<open>MSG_SEND_FAILED\<close> when the text is longer than
  \<^verbatim>\<open>MAX_TEXT_LEN\<close> or no packet can be taken from the pool, and then sends nothing;
  otherwise the payload of the packet is the 4-byte RTC time, one byte \<^verbatim>\<open>attempt & 3\<close> and
  the text, the packet is sent direct along \<^verbatim>\<open>out_path\<close> with \<^verbatim>\<open>MSG_SEND_SENT_DIRECT\<close> when
  \<^verbatim>\<open>recipient.out_path_len >= 0\<close>, else flooded with \<^verbatim>\<open>MSG_SEND_SENT_FLOOD\<close>, and the send
  timeout is armed.
\<close>

theorem sendMessage_contract:
  "sendMessage e r attempt msg old_ack s =
     (let payload = u32_bytes (rtc s) @ [attempt AND 3] @ cstr msg;
          pkt = Datagram PAYLOAD_TYPE_TXT_MSG (c_id r) (shared_secret r) payload;
          ack = sha256 e 4 payload (pub_key (self_id e));
          t = getEstAirtimeFor e pkt
      in if MAX_TEXT_LEN e < strlen msg then ((MSG_SEND_FAILED, old_ack), s)
         else if pool_free s = 0 then ((MSG_SEND_FAILED, ack), s)
         else if 0 \<le> c_out_path_len r then
           ((MSG_SEND_SENT_DIRECT, ack),
            s\<lparr>pool_free := pool_free s - 1,
              effects := effects s @ [SendDirect pkt (take (nat (c_out_path_len r)) (c_out_path r)) 0],
              txt_send_timeout := millis s + calcDirectTimeoutMillisFor e t (c_out_path_len r)\<rparr>)
         else
           ((MSG_SEND_SENT_FLOOD, ack),
            s\<lparr>pool_free := pool_free s - 1,
              effects := effects s @ [SendFlood pkt 0],
              txt_send_timeout := millis s + calcFloodTimeoutMillisFor e t\<rparr>))"
  unfolding sendMessage_def composeMsgPacket_def Let_def compose_payload
  by (simp add: createDatagram_def create_def pool_alloc_def sendFlood_def sendDirect_def emit_def
        futureMillis_def getCurrentTime_def not_le)

theorem sendMessage_contract_witness:
  "sendMessage example_env example_contact 0 (bytes_of ''hello'') [] example_chat =
     ((MSG_SEND_SENT_FLOOD, [2, 1, 171, 111]),
      example_chat
        \<lparr>pool_free := 7,
         effects := [SendFlood (Datagram PAYLOAD_TYPE_TXT_MSG example_peer [151, 89, 94]
                                  [232, 3, 0, 0, 0, 104, 101, 108, 108, 111]) 0],
         txt_send_timeout := 7100\<rparr>)
   \<and> sendMessage example_env (example_contact\<lparr>c_out_path_len := 2, c_out_path := [7, 9]\<rparr>) 5
         (bytes_of ''hello'') [] example_chat =
     ((MSG_SEND_SENT_DIRECT, [2, 1, 171, 111]),
      example_chat
        \<lparr>pool_free := 7,
         effects := [SendDirect (Datagram PAYLOAD_TYPE_TXT_MSG example_peer [151, 89, 94]
                                   [232, 3, 0, 0, 1, 104, 101, 108, 108, 111]) [7, 9] 0],
         txt_send_timeout := 6100\<rparr>)"
  using sendMessage_contract [of example_env example_contact 0 "bytes_of ''hello''" "[]" example_chat]
        sendMessage_contract [of example_env "example_contact\<lparr>c_out_path_len := 2, c_out_path := [7, 9]\<rparr>"
                                 5 "bytes_of ''hello''" "[]" example_chat]
  by (simp add: Let_def example_chat_def example_env_def example_contact_def example_peer_def
        strlen_def cstr_def bytes_of_def u32_bytes_def sha256_def)

section \<open>The reply to a CLI command\<close>

lemma send_cli_reply_eq:
  assumes nonempty: "0 < strlen reply"
  shows "send_cli_reply ts i sec reply s =
     (let t = (if rtc s = ts then rtc s + 1 else rtc s);
          client = known_clients s ! i;
          p = Datagram PAYLOAD_TYPE_TXT_MSG (cl_id client) sec (u32_bytes t @ [0] @ cstr reply)
      in if pool_free s = 0 then s
         else s\<lparr>pool_free := pool_free s - 1,
                effects := effects s @
                  [if cl_out_path_len client < 0 then SendFlood p CLI_REPLY_DELAY_MILLIS
                   else SendDirect p (take (nat (cl_out_path_len client)) (cl_out_path client))
                          CLI_REPLY_DELAY_MILLIS]\<rparr>)"
proof -
  have p: "take (5 + strlen reply) (u32_bytes t @ [0] @ reply) = u32_bytes t @ [0] @ cstr reply" for t
    by (simp add: length_u32_bytes take_strlen_cstr)
  show ?thesis
    unfolding send_cli_reply_def Let_def p
    using nonempty
    by (simp add: createDatagram_def create_def pool_alloc_def sendFlood_def sendDirect_def emit_def
          getCurrentTime_def)
qed

lemma ex_ver_command:
  "handleCommand example_env 1001 (cstr (drop 5 [233, 3, 0, 0, 0, 118, 101, 114]))
     (ack_cli_text example_env 0 [233, 3, 0, 0, 0, 118, 101, 114] (example_admin_repeater\<lparr>rtc := 1001\<rparr>))
   = Some (example_admin_repeater
             \<lparr>rtc := 1001, pool_free := 7, effects := [SendFlood (Ack [4, 3, 205, 114]) 0],
              known_clients :=
                [\<lparr>cl_id = example_peer, last_timestamp = 1001, secret = [151, 89, 94],
                  cl_out_path_len = - 1, cl_out_path = []\<rparr>,
                 example_client, example_client, example_client]\<rparr>,
           FIRMWARE_VER_TEXT)"
  by (simp add: handleCommand_def ack_cli_text_def Let_def cstr_def bytes_of_def le32_def
        calc_ack_hash_def sha256_def strlen_def createAck_def create_def pool_alloc_def
        sendFlood_def emit_def example_admin_repeater_def example_repeater_def example_env_def
        example_peer_def)

lemma cli_reply_overrun:
  assumes idx: "sender_idx < length (r_matching_peer_indexes s)"
    and i: "i = nat (r_matching_peer_indexes s ! sender_idx)"
    and known: "0 \<le> r_matching_peer_indexes s ! sender_idx"
        "r_matching_peer_indexes s ! sender_idx < num_clients s"
    and len: "5 < length data"
    and flags: "data ! 4 = 0"
    and newer: "last_timestamp (known_clients s ! i) < le32 data"
    and cmd: "handleCommand e (le32 data) (cstr (drop 5 data)) (ack_cli_text e i data s) = Some (s3, reply)"
    and long: "160 < length reply"
  shows "onPeerDataRecv_rep e pkt PAYLOAD_TYPE_TXT_MSG sender_idx sec data s = BufferOverrun"
  using idx i known len flags newer cmd long
  by (simp add: onPeerDataRecv_rep_def on_cli_text_def Let_def not_le CLI_REPLY_BUF_def)

lemma unknown_command_reply:
  assumes "take 1 command \<noteq> [of_char CHR '' '']"
    and "take 6 command \<noteq> bytes_of ''reboot''" and "take 6 command \<noteq> bytes_of ''advert''"
    and "take 5 command \<noteq> bytes_of ''clock''" and "take 4 command \<noteq> bytes_of ''set ''"
    and "take 3 command \<noteq> bytes_of ''ver''"
  shows "handleCommand e ts command s =
           Some (s, bytes_of ''Unknown: '' @ command
                      @ bytes_of '' (commands: reboot, advert, clock, set, ver)'')"
proof -
  have d: "dropWhile (\<lambda>b. b = of_char CHR '' '') command = command"
    using assms(1) by (cases command) auto
  have c: "take 10 command \<noteq> bytes_of ''clock sync''"
  proof
    assume "take 10 command = bytes_of ''clock sync''"
    then have "take 5 (take 10 command) = take 5 (bytes_of ''clock sync'')" by simp
    then have "take 5 command = bytes_of ''clock''" by (simp add: bytes_of_def)
    with assms(4) show False by simp
  qed
  show ?thesis
    unfolding handleCommand_def d Let_def using assms c by simp
qed

text \<open>
  Claim C9, as the code has it. When the repeater handles a CLI text command (a
  \<^verbatim>\<open>TXT_MSG\<close> of more than 5 bytes with flags 0 and a timestamp above the client's
  \<^verbatim>\<open>last_timestamp\<close>) and \<^verbatim>\<open>handleCommand\<close> returns with a non-empty reply text that fits
  the reply buffer (at most 160 bytes), the reply is, when a packet can be taken from
  the pool, sent to the client as a datagram of payload type \<^verbatim>\<open>TXT_MSG\<close> (not
  \<^verbatim>\<open>RESPONSE\<close>) with flags byte 0, delayed by \<^verbatim>\<open>CLI_REPLY_DELAY_MILLIS\<close>, flooded or direct
  along the client's out path. Its 4-byte timestamp is the RTC time after the command,
  plus 1 (a 32-bit sum) when that equals the sender's timestamp, and so never the
  sender's timestamp. A longer reply runs over the buffer (\<open>cli_reply_overrun\<close>).
\<close>

theorem cli_reply_timestamp:
  assumes idx: "sender_idx < length (r_matching_peer_indexes s)"
    and i: "i = nat (r_matching_peer_indexes s ! sender_idx)"
    and known: "0 \<le> r_matching_peer_indexes s ! sender_idx"
        "r_matching_peer_indexes s ! sender_idx < num_clients s"
    and len: "5 < length data"
    and flags: "data ! 4 = 0"
    and newer: "last_timestamp (known_clients s ! i) < le32 data"
    and cmd: "handleCommand e (le32 data) (cstr (drop 5 data)) (ack_cli_text e i data s) = Some (s3, reply)"
    and nonempty: "0 < strlen reply"
    and fits: "length reply \<le> 160"
  shows
    "(let t = (if rtc s3 = le32 data then rtc s3 + 1 else rtc s3);
          client = known_clients s3 ! i;
          p = Datagram PAYLOAD_TYPE_TXT_MSG (cl_id client) sec (u32_bytes t @ [0] @ cstr reply)
      in t \<noteq> le32 data \<and>
         le32 (u32_bytes t @ [0] @ cstr reply) \<noteq> le32 data \<and>
         onPeerDataRecv_rep e pkt PAYLOAD_TYPE_TXT_MSG sender_idx sec data s =
           Returns (if pool_free s3 = 0 then s3
                    else s3\<lparr>pool_free := pool_free s3 - 1,
                            effects := effects s3 @
                              [if cl_out_path_len client < 0 then SendFlood p CLI_REPLY_DELAY_MILLIS
                               else SendDirect p (take (nat (cl_out_path_len client))
                                                    (cl_out_path client)) CLI_REPLY_DELAY_MILLIS]\<rparr>))"
proof -
  have r: "onPeerDataRecv_rep e pkt PAYLOAD_TYPE_TXT_MSG sender_idx sec data s =
             Returns (send_cli_reply (le32 data) i sec reply s3)"
    using idx i known len flags newer cmd fits
    by (simp add: onPeerDataRecv_rep_def on_cli_text_def Let_def not_le CLI_REPLY_BUF_def)
  show ?thesis
    unfolding r send_cli_reply_eq [OF nonempty] Let_def
    by (simp add: le32_u32_bytes)
qed

theorem cli_reply_timestamp_witness:
  "le32 ([234, 3, 0, 0] @ [0] @ FIRMWARE_VER_TEXT) \<noteq> 1001
   \<and> onPeerDataRecv_rep example_env \<lparr>isRouteFlood = False, path = [], path_len = 0\<rparr> PAYLOAD_TYPE_TXT_MSG 0
        [151, 89, 94] [233, 3, 0, 0, 0, 118, 101, 114] (example_admin_repeater\<lparr>rtc := 1001\<rparr>)
     = Returns
         (example_admin_repeater
            \<lparr>rtc := 1001, pool_free := 6,
             effects := [SendFlood (Ack [4, 3, 205, 114]) 0,
                         SendFlood (Datagram PAYLOAD_TYPE_TXT_MSG example_peer [151, 89, 94]
                                      ([234, 3, 0, 0] @ [0] @ FIRMWARE_VER_TEXT)) 1500],
             known_clients :=
               [\<lparr>cl_id = example_peer, last_timestamp = 1001, secret = [151, 89, 94],
                 cl_out_path_len = - 1, cl_out_path = []\<rparr>,
                example_client, example_client, example_client]\<rparr>)"
proof -
  let ?s = "example_admin_repeater\<lparr>rtc := 1001\<rparr>"
  let ?d = "[233, 3, 0, 0, 0, 118, 101, 114] :: bytes"
  have ts: "le32 ?d = 1001" by (simp add: le32_def)
  have idx: "0 < length (r_matching_peer_indexes ?s)"
    by (simp add: example_admin_repeater_def example_repeater_def)
  have i: "(0::nat) = nat (r_matching_peer_indexes ?s ! 0)"
    and k1: "0 \<le> r_matching_peer_indexes ?s ! 0"
    and k2: "r_matching_peer_indexes ?s ! 0 < num_clients ?s"
    by (simp_all add: example_admin_repeater_def example_repeater_def)
  have len: "5 < length ?d" by simp
  have fl: "?d ! 4 = 0" by simp
  have newer: "last_timestamp (known_clients ?s ! 0) < le32 ?d"
    by (simp add: ts example_admin_repeater_def example_repeater_def)
  have ne: "0 < strlen FIRMWARE_VER_TEXT"
    by (simp add: strlen_def cstr_def FIRMWARE_VER_TEXT_def bytes_of_def)
  have c: "cstr FIRMWARE_VER_TEXT = FIRMWARE_VER_TEXT"
    by (simp add: cstr_def FIRMWARE_VER_TEXT_def bytes_of_def)
  have u: "u32_bytes 1002 = [234, 3, 0, 0]" by (simp add: u32_bytes_def)
  have fits: "length FIRMWARE_VER_TEXT \<le> 160"
    by (simp add: FIRMWARE_VER_TEXT_def bytes_of_def)
  have cmd: "handleCommand example_env (le32 ?d) (cstr (drop 5 ?d)) (ack_cli_text example_env 0 ?d ?s)
     = Some (example_admin_repeater
             \<lparr>rtc := 1001, pool_free := 7, effects := [SendFlood (Ack [4, 3, 205, 114]) 0],
              known_clients :=
                [\<lparr>cl_id = example_peer, last_timestamp = 1001, secret = [151, 89, 94],
                  cl_out_path_len = - 1, cl_out_path = []\<rparr>,
                 example_client, example_client, example_client]\<rparr>,
           FIRMWARE_VER_TEXT)"
    using ex_ver_command by (simp only: ts)
  show ?thesis
    using cli_reply_timestamp [OF idx i k1 k2 len fl newer cmd ne fits,
        of "[151, 89, 94]" "\<lparr>isRouteFlood = False, path = [], path_len = 0\<rparr>"]
    by (simp add: Let_def ts c u CLI_REPLY_DELAY_MILLIS_def example_admin_repeater_def
          example_repeater_def)
qed

text \<open>
  Claim C9 as stated fails: the reply to \<^verbatim>\<open>ver\<close> goes out with payload type \<^verbatim>\<open>TXT_MSG\<close>,
  which is not \<^verbatim>\<open>RESPONSE\<close>; and when the ACK has taken the last packet of the pool, no
  reply is sent at all.
\<close>

theorem cli_reply_is_txt_msg:
  "onPeerDataRecv_rep example_env \<lparr>isRouteFlood = False, path = [], path_len = 0\<rparr> PAYLOAD_TYPE_TXT_MSG 0
        [151, 89, 94] [208, 7, 0, 0, 0, 118, 101, 114] example_admin_repeater
     = Returns
         (example_admin_repeater
            \<lparr>pool_free := 6,
             effects := [SendFlood (Ack [4, 3, 205, 114]) 0,
                         SendFlood (Datagram PAYLOAD_TYPE_TXT_MSG example_peer [151, 89, 94]
                                      ([232, 3, 0, 0] @ [0] @ FIRMWARE_VER_TEXT)) 1500],
             known_clients :=
               [\<lparr>cl_id = example_peer, last_timestamp = 2000, secret = [151, 89, 94],
                 cl_out_path_len = - 1, cl_out_path = []\<rparr>,
                example_client, example_client, example_client]\<rparr>)
   \<and> PAYLOAD_TYPE_TXT_MSG \<noteq> PAYLOAD_TYPE_RESPONSE
   \<and> onPeerDataRecv_rep example_env \<lparr>isRouteFlood = False, path = [], path_len = 0\<rparr> PAYLOAD_TYPE_TXT_MSG 0
        [151, 89, 94] [208, 7, 0, 0, 0, 118, 101, 114] (example_admin_repeater\<lparr>pool_free := 1\<rparr>)
     = Returns
         (example_admin_repeater
            \<lparr>pool_free := 0,
             effects := [SendFlood (Ack [4, 3, 205, 114]) 0],
             known_clients :=
               [\<lparr>cl_id = example_peer, last_timestamp = 2000, secret = [151, 89, 94],
                 cl_out_path_len = - 1, cl_out_path = []\<rparr>,
                example_client, example_client, example_client]\<rparr>)"
  by (simp add: onPeerDataRecv_rep_def on_cli_text_def handleCommand_def ack_cli_text_def
        send_cli_reply_def Let_def cstr_def bytes_of_def le32_def u32_bytes_def
        calc_ack_hash_def sha256_def strlen_def createAck_def createDatagram_def create_def
        pool_alloc_def sendFlood_def emit_def getCurrentTime_def FIRMWARE_VER_TEXT_def
        CLI_REPLY_DELAY_MILLIS_def CLI_REPLY_BUF_def example_admin_repeater_def example_repeater_def
        example_env_def example_peer_def)

section \<open>The counts stay within the tables\<close>

lemma num_clients_create [simp]: "num_clients (snd (create p s)) = num_clients s"
  by (simp add: create_def pool_alloc_def)

lemma num_clients_emit [simp]: "num_clients (emit x s) = num_clients s"
  by (simp add: emit_def)

lemma num_clients_send_response [simp]:
  "num_clients (send_response pkt dest sec i n s) = num_clients s"
  by (simp add: send_response_def createPathReturn_def createDatagram_def create_def pool_alloc_def
        sendFlood_def sendDirect_def emit_def)




lemma num_clients_ack_cli_text [simp]: "num_clients (ack_cli_text e i data s) = num_clients s"
  by (simp add: ack_cli_text_def Let_def createAck_def create_def pool_alloc_def sendFlood_def
        sendDirect_def emit_def)

lemma num_clients_send_cli_reply [simp]: "num_clients (send_cli_reply ts i sec reply s) = num_clients s"
  by (simp add: send_cli_reply_def Let_def createDatagram_def create_def pool_alloc_def sendFlood_def
        sendDirect_def emit_def)

lemma num_clients_on_req [simp]: "num_clients (on_req e pkt i sec data s) = num_clients s"
  by (simp add: on_req_def handleRequest_def Let_def)










lemma map_outcome_snd_Returns:
  "map_outcome snd x = Returns s' \<Longrightarrow> \<exists>b. x = Returns (b, s')"
  by (cases x) auto





lemma chat_step_overrun:
  "chat_step e cop s = BufferOverrun \<longleftrightarrow>
     (\<exists>pkt sender_idx sec pth pth_len extra_type extra extra_len.
        cop = PeerPathRecv pkt sender_idx sec pth pth_len extra_type extra extra_len \<and>
        sender_idx < length (matching_peer_indexes s) \<and>
        0 \<le> matching_peer_indexes s ! sender_idx \<and>
        matching_peer_indexes s ! sender_idx < num_contacts s \<and>
        MAX_PATH_SIZE e < unat pth_len)
     \<or> (\<exists>psk m. cop = AddChannel psk \<and> MAX_GROUP_CHANNELS e = Some m \<and> num_channels s < int m \<and>
           PUB_KEY_SIZE < length (decode_base64 e (cstr psk)))"
proof (cases cop)
  case (PeerDataRecv pkt type sender_idx sec data)
  then show ?thesis by (auto simp: onPeerDataRecv_def Let_def split: if_splits)
next
  case (PeerPathRecv pkt sender_idx sec pth pth_len extra_type extra extra_len)
  then show ?thesis by (auto simp: onPeerPathRecv_def Let_def split: if_splits)
next
  case (AddChannel psk)
  then show ?thesis by (auto simp: addChannel_def Let_def split: option.splits if_splits)
qed auto

lemma rep_step_overrun:
  assumes "rep_step e rop s = BufferOverrun"
  shows "(\<exists>sender_idx pth pth_len. rop = R_PeerPathRecv sender_idx pth pth_len \<and>
            MAX_PATH_SIZE e < unat pth_len)
         \<or> (\<exists>pkt sender_idx sec data s3 reply.
               rop = R_PeerDataRecv pkt PAYLOAD_TYPE_TXT_MSG sender_idx sec data \<and>
               handleCommand e (le32 data) (cstr (drop 5 data))
                 (ack_cli_text e (nat (r_matching_peer_indexes s ! sender_idx)) data s) = Some (s3, reply) \<and>
               160 < length reply)
         \<or> (\<exists>command s' reply. rop = R_SerialCommand command \<and>
               handleCommand e 0 command s = Some (s', reply) \<and> 159 < length reply)"
proof (cases rop)
  case (R_PeerDataRecv pkt type sender_idx sec data)
  with assms show ?thesis
    by (auto simp: onPeerDataRecv_rep_def on_cli_text_def Let_def CLI_REPLY_BUF_def
          split: if_splits option.splits prod.splits)
next
  case (R_PeerPathRecv sender_idx pth pth_len)
  with assms show ?thesis by (auto simp: onPeerPathRecv_rep_def Let_def split: if_splits)
next
  case (R_SerialCommand command)
  with assms show ?thesis
    by (auto simp: SERIAL_REPLY_BUF_def split: option.splits if_splits)
qed (use assms in auto)



section \<open>The send timeout\<close>

lemma onAdvertRecv_timer: "txt_send_timeout (onAdvertRecv e pkt ident ts p s) = txt_send_timeout s"
  by (simp add: onAdvertRecv_def update_contact_def emit_def Let_def split: option.splits)

lemma onPeerDataRecv_timer:
  "onPeerDataRecv e pkt type sender_idx sec data s = Returns s' \<Longrightarrow>
     txt_send_timeout s' = txt_send_timeout s"
  by (auto simp: onPeerDataRecv_def send_ack_def Let_def createPathReturn_def createAck_def create_def
        pool_alloc_def sendFlood_def sendDirect_def emit_def split: if_splits)

lemma onPeerPathRecv_timer:
  "onPeerPathRecv e pkt sender_idx sec pth pth_len extra_type extra extra_len s = Returns (b, s') \<Longrightarrow>
     txt_send_timeout s' = txt_send_timeout s \<or>
     (extra_type = PAYLOAD_TYPE_ACK \<and> 4 \<le> extra_len \<and> processAck e (take 4 extra) \<and>
      txt_send_timeout s' = 0)"
  by (auto simp: onPeerPathRecv_def Let_def emit_def split: if_splits)

lemma onAckRecv_timer:
  "txt_send_timeout (onAckRecv e pkt ack_crc s) = txt_send_timeout s \<or>
   (processAck e (u32_bytes ack_crc) \<and> txt_send_timeout (onAckRecv e pkt ack_crc s) = 0)"
  by (simp add: onAckRecv_def emit_def)

lemma addContact_timer: "txt_send_timeout (snd (addContact e contact s)) = txt_send_timeout s"
  by (simp add: addContact_def Let_def)

lemma addChannel_timer:
  "addChannel e psk s = Returns (r, s') \<Longrightarrow> txt_send_timeout s' = txt_send_timeout s"
  by (auto simp: addChannel_def Let_def split: option.splits if_splits)

lemma onAckRecv_eq:
  "onAckRecv e pkt ack_crc s =
     (if processAck e (u32_bytes ack_crc)
      then s\<lparr>effects := effects s @ [MarkDoNotRetransmit], txt_send_timeout := 0\<rparr> else s)"
  by (simp add: onAckRecv_def emit_def)

lemma onPeerPathRecv_eq:
  assumes "sender_idx < length (matching_peer_indexes s)"
    and "0 \<le> matching_peer_indexes s ! sender_idx"
    and "matching_peer_indexes s ! sender_idx < num_contacts s"
    and "unat pth_len \<le> MAX_PATH_SIZE e"
  shows "onPeerPathRecv e pkt sender_idx sec pth pth_len extra_type extra extra_len s =
     (let i = nat (matching_peer_indexes s ! sender_idx);
          from = (contacts s ! i)
                   \<lparr>c_out_path_len := uint pth_len,
                    c_out_path := memcpy_front (take (unat pth_len) pth) (c_out_path (contacts s ! i))\<rparr>
      in Returns (True,
           s\<lparr>effects := effects s @ [OnContactPathUpdated from],
             contacts := (contacts s)[i := from],
             txt_send_timeout :=
               (if extra_type = PAYLOAD_TYPE_ACK \<and> 4 \<le> extra_len \<and> processAck e (take 4 extra)
                then 0 else txt_send_timeout s)\<rparr>))"
  using assms by (auto simp: onPeerPathRecv_def Let_def emit_def)

lemma sendMessage_timer:
  "txt_send_timeout (snd (sendMessage e r attempt msg old_ack s)) =
     (if fst (fst (sendMessage e r attempt msg old_ack s)) = MSG_SEND_FAILED then txt_send_timeout s
      else if c_out_path_len r < 0 then
        millis s + calcFloodTimeoutMillisFor e
          (getEstAirtimeFor e (Datagram PAYLOAD_TYPE_TXT_MSG (c_id r) (shared_secret r)
             (u32_bytes (rtc s) @ [attempt AND 3] @ cstr msg)))
      else
        millis s + calcDirectTimeoutMillisFor e
          (getEstAirtimeFor e (Datagram PAYLOAD_TYPE_TXT_MSG (c_id r) (shared_secret r)
             (u32_bytes (rtc s) @ [attempt AND 3] @ cstr msg))) (c_out_path_len r))"
  unfolding sendMessage_def composeMsgPacket_def Let_def compose_payload
  by (simp add: createDatagram_def create_def pool_alloc_def sendFlood_def sendDirect_def emit_def
        futureMillis_def getCurrentTime_def)

lemma loop_expired:
  "txt_send_timeout s \<noteq> 0 \<Longrightarrow> millisHasNowPassed e (millis s) (txt_send_timeout s) \<Longrightarrow>
     loop e s = s\<lparr>effects := effects s @ [OnSendTimeout], txt_send_timeout := 0\<rparr>"
  by (simp add: loop_def emit_def)

lemma loop_idle:
  "txt_send_timeout s = 0 \<or> \<not> millisHasNowPassed e (millis s) (txt_send_timeout s) \<Longrightarrow> loop e s = s"
  by (auto simp: loop_def)

lemma loop_twice: "loop e (loop e s) = loop e s"
  by (simp add: loop_def emit_def)

lemma chat_step_timer:
  assumes step: "chat_step e cop s = Returns s'"
    and changed: "txt_send_timeout s' \<noteq> txt_send_timeout s"
  shows
    "(\<exists>pkt ack_crc. cop = AckRecv pkt ack_crc \<and> processAck e (u32_bytes ack_crc) \<and>
                    txt_send_timeout s' = 0)
     \<or> (\<exists>pkt sender_idx sec pth pth_len extra extra_len.
          cop = PeerPathRecv pkt sender_idx sec pth pth_len PAYLOAD_TYPE_ACK extra extra_len \<and>
          4 \<le> extra_len \<and> processAck e (take 4 extra) \<and> txt_send_timeout s' = 0)
     \<or> (cop = Loop \<and> txt_send_timeout s \<noteq> 0 \<and> millisHasNowPassed e (millis s) (txt_send_timeout s) \<and>
         s' = s\<lparr>effects := effects s @ [OnSendTimeout], txt_send_timeout := 0\<rparr>)
     \<or> (\<exists>r attempt msg old_ack.
          cop = SendMessage r attempt msg old_ack \<and>
          fst (fst (sendMessage e r attempt msg old_ack s)) \<noteq> MSG_SEND_FAILED \<and>
          txt_send_timeout s' =
            millis s +
            (if c_out_path_len r < 0 then
               calcFloodTimeoutMillisFor e
                 (getEstAirtimeFor e (Datagram PAYLOAD_TYPE_TXT_MSG (c_id r) (shared_secret r)
                    (u32_bytes (rtc s) @ [attempt AND 3] @ cstr msg)))
             else
               calcDirectTimeoutMillisFor e
                 (getEstAirtimeFor e (Datagram PAYLOAD_TYPE_TXT_MSG (c_id r) (shared_secret r)
                    (u32_bytes (rtc s) @ [attempt AND 3] @ cstr msg))) (c_out_path_len r)))"
proof (cases cop)
  case (AdvertRecv pkt ident ts p)
  with step changed show ?thesis by (auto simp: onAdvertRecv_timer)
next
  case (SearchPeersByHash h)
  with step changed show ?thesis by (auto simp: searchPeersByHash_def Let_def)
next
  case (PeerDataRecv pkt type sender_idx sec data)
  with step changed show ?thesis by (auto dest: onPeerDataRecv_timer)
next
  case (PeerPathRecv pkt sender_idx sec pth pth_len extra_type extra extra_len)
  with step obtain b where
    "onPeerPathRecv e pkt sender_idx sec pth pth_len extra_type extra extra_len s = Returns (b, s')"
    by (auto dest: map_outcome_snd_Returns)
  from onPeerPathRecv_timer [OF this] changed PeerPathRecv show ?thesis by auto
next
  case (AckRecv pkt ack_crc)
  with step have "s' = onAckRecv e pkt ack_crc s" by simp
  with onAckRecv_timer [of e pkt ack_crc s] changed AckRecv show ?thesis by auto
next
  case (GroupDataRecv pkt type channel data)
  with step changed show ?thesis by (auto simp: onGroupDataRecv_def emit_def split: if_splits)
next
  case (SendMessage r attempt msg old_ack)
  with step have s': "s' = snd (sendMessage e r attempt msg old_ack s)" by simp
  with changed sendMessage_timer [of e r attempt msg old_ack s] SendMessage show ?thesis
    by (auto split: if_splits)
next
  case (ResetPathTo k)
  with step changed show ?thesis by (auto split: if_splits)
next
  case (AddContact contact)
  with step changed show ?thesis by (auto simp: addContact_timer)
next
  case (AddChannel psk)
  with step obtain r where "addChannel e psk s = Returns (r, s')"
    by (auto dest: map_outcome_snd_Returns)
  from addChannel_timer [OF this] changed show ?thesis by simp
next
  case Loop
  with step changed show ?thesis by (auto simp: loop_def emit_def split: if_splits)
next
  case (ClockAdvance r m)
  with step changed show ?thesis by auto
qed

text \<open>
  Claim C8, as the code has it. \<^verbatim>\<open>onAckRecv\<close> with an ACK that \<^verbatim>\<open>processAck\<close> accepts clears
  \<^verbatim>\<open>txt_send_timeout\<close> (and marks the packet as not to be retransmitted); with any other
  ACK it changes nothing. \<^verbatim>\<open>onPeerPathRecv\<close> from a known contact, with a path that fits
  \<^verbatim>\<open>out_path\<close>, stores the path and clears the timer exactly when it carries an \<^verbatim>\<open>ACK\<close> of
  at least 4 bytes that \<^verbatim>\<open>processAck\<close> accepts. Whenever a step of the chat layer changes
  the timer, it is one of these two, or \<^verbatim>\<open>loop()\<close> at an armed timer that has expired, or
  a \<^verbatim>\<open>sendMessage\<close> that sent a packet: that one puts the deadline of the new message in
  the place of the old one, the millisecond clock plus the flood or direct timeout.
  When the armed timer has expired, \<^verbatim>\<open>loop()\<close> calls \<^verbatim>\<open>onSendTimeout()\<close> once, clears the
  timer and does nothing else: no packet is sent. With the timer cleared, or not yet
  expired, \<^verbatim>\<open>loop()\<close> changes nothing, so the timeout fires once. Whether an ACK matches
  the awaited hash is the application's \<^verbatim>\<open>processAck\<close>, a parameter here.
\<close>

theorem send_timeout_contract:
  "(chat_step e cop s = Returns s' \<and> txt_send_timeout s' \<noteq> txt_send_timeout s \<longrightarrow>
      (\<exists>pkt ack_crc. cop = AckRecv pkt ack_crc \<and> processAck e (u32_bytes ack_crc) \<and>
                     txt_send_timeout s' = 0)
      \<or> (\<exists>pkt sender_idx sec pth pth_len extra extra_len.
           cop = PeerPathRecv pkt sender_idx sec pth pth_len PAYLOAD_TYPE_ACK extra extra_len \<and>
           4 \<le> extra_len \<and> processAck e (take 4 extra) \<and> txt_send_timeout s' = 0)
      \<or> (cop = Loop \<and> txt_send_timeout s \<noteq> 0 \<and> millisHasNowPassed e (millis s) (txt_send_timeout s) \<and>
          s' = s\<lparr>effects := effects s @ [OnSendTimeout], txt_send_timeout := 0\<rparr>)
      \<or> (\<exists>r attempt msg old_ack.
           cop = SendMessage r attempt msg old_ack \<and>
           fst (fst (sendMessage e r attempt msg old_ack s)) \<noteq> MSG_SEND_FAILED \<and>
           txt_send_timeout s' =
             millis s +
             (if c_out_path_len r < 0 then
                calcFloodTimeoutMillisFor e
                  (getEstAirtimeFor e (Datagram PAYLOAD_TYPE_TXT_MSG (c_id r) (shared_secret r)
                     (u32_bytes (rtc s) @ [attempt AND 3] @ cstr msg)))
              else
                calcDirectTimeoutMillisFor e
                  (getEstAirtimeFor e (Datagram PAYLOAD_TYPE_TXT_MSG (c_id r) (shared_secret r)
                     (u32_bytes (rtc s) @ [attempt AND 3] @ cstr msg))) (c_out_path_len r))))
   \<and> onAckRecv e pkt0 ack0 s =
        (if processAck e (u32_bytes ack0)
         then s\<lparr>effects := effects s @ [MarkDoNotRetransmit], txt_send_timeout := 0\<rparr> else s)
   \<and> (idx < length (matching_peer_indexes s) \<and> 0 \<le> matching_peer_indexes s ! idx \<and>
       matching_peer_indexes s ! idx < num_contacts s \<and> unat n \<le> MAX_PATH_SIZE e
      \<longrightarrow> onPeerPathRecv e pkt1 idx sec1 pth1 n extra_type1 extra1 extra_len1 s =
          (let i = nat (matching_peer_indexes s ! idx);
               from = (contacts s ! i)
                        \<lparr>c_out_path_len := uint n,
                         c_out_path := memcpy_front (take (unat n) pth1) (c_out_path (contacts s ! i))\<rparr>
           in Returns (True,
                s\<lparr>effects := effects s @ [OnContactPathUpdated from],
                  contacts := (contacts s)[i := from],
                  txt_send_timeout :=
                    (if extra_type1 = PAYLOAD_TYPE_ACK \<and> 4 \<le> extra_len1 \<and> processAck e (take 4 extra1)
                     then 0 else txt_send_timeout s)\<rparr>)))
   \<and> (txt_send_timeout s \<noteq> 0 \<and> millisHasNowPassed e (millis s) (txt_send_timeout s) \<longrightarrow>
        loop e s = s\<lparr>effects := effects s @ [OnSendTimeout], txt_send_timeout := 0\<rparr>)
   \<and> (txt_send_timeout s = 0 \<longrightarrow> loop e s = s)
   \<and> (\<not> millisHasNowPassed e (millis s) (txt_send_timeout s) \<longrightarrow> loop e s = s)
   \<and> loop e (loop e s) = loop e s"
proof (intro conjI impI)
  assume "chat_step e cop s = Returns s' \<and> txt_send_timeout s' \<noteq> txt_send_timeout s"
  then have "chat_step e cop s = Returns s'" "txt_send_timeout s' \<noteq> txt_send_timeout s" by simp_all
  then show "(\<exists>pkt ack_crc. cop = AckRecv pkt ack_crc \<and> processAck e (u32_bytes ack_crc) \<and>
                     txt_send_timeout s' = 0)
      \<or> (\<exists>pkt sender_idx sec pth pth_len extra extra_len.
           cop = PeerPathRecv pkt sender_idx sec pth pth_len PAYLOAD_TYPE_ACK extra extra_len \<and>
           4 \<le> extra_len \<and> processAck e (take 4 extra) \<and> txt_send_timeout s' = 0)
      \<or> (cop = Loop \<and> txt_send_timeout s \<noteq> 0 \<and> millisHasNowPassed e (millis s) (txt_send_timeout s) \<and>
          s' = s\<lparr>effects := effects s @ [OnSendTimeout], txt_send_timeout := 0\<rparr>)
      \<or> (\<exists>r attempt msg old_ack.
           cop = SendMessage r attempt msg old_ack \<and>
           fst (fst (sendMessage e r attempt msg old_ack s)) \<noteq> MSG_SEND_FAILED \<and>
           txt_send_timeout s' =
             millis s +
             (if c_out_path_len r < 0 then
                calcFloodTimeoutMillisFor e
                  (getEstAirtimeFor e (Datagram PAYLOAD_TYPE_TXT_MSG (c_id r) (shared_secret r)
                     (u32_bytes (rtc s) @ [attempt AND 3] @ cstr msg)))
              else
                calcDirectTimeoutMillisFor e
                  (getEstAirtimeFor e (Datagram PAYLOAD_TYPE_TXT_MSG (c_id r) (shared_secret r)
                     (u32_bytes (rtc s) @ [attempt AND 3] @ cstr msg))) (c_out_path_len r)))"
    by (rule chat_step_timer)
next
  show "onAckRecv e pkt0 ack0 s =
        (if processAck e (u32_bytes ack0)
         then s\<lparr>effects := effects s @ [MarkDoNotRetransmit], txt_send_timeout := 0\<rparr> else s)"
    by (rule onAckRecv_eq)
next
  assume "idx < length (matching_peer_indexes s) \<and> 0 \<le> matching_peer_indexes s ! idx \<and>
       matching_peer_indexes s ! idx < num_contacts s \<and> unat n \<le> MAX_PATH_SIZE e"
  then show "onPeerPathRecv e pkt1 idx sec1 pth1 n extra_type1 extra1 extra_len1 s =
          (let i = nat (matching_peer_indexes s ! idx);
               from = (contacts s ! i)
                        \<lparr>c_out_path_len := uint n,
                         c_out_path := memcpy_front (take (unat n) pth1) (c_out_path (contacts s ! i))\<rparr>
           in Returns (True,
                s\<lparr>effects := effects s @ [OnContactPathUpdated from],
                  contacts := (contacts s)[i := from],
                  txt_send_timeout :=
                    (if extra_type1 = PAYLOAD_TYPE_ACK \<and> 4 \<le> extra_len1 \<and> processAck e (take 4 extra1)
                     then 0 else txt_send_timeout s)\<rparr>))"
    by (simp only: onPeerPathRecv_eq)
next
  assume "txt_send_timeout s \<noteq> 0 \<and> millisHasNowPassed e (millis s) (txt_send_timeout s)"
  then show "loop e s = s\<lparr>effects := effects s @ [OnSendTimeout], txt_send_timeout := 0\<rparr>"
    by (simp add: loop_expired)
next
  assume "txt_send_timeout s = 0"
  then show "loop e s = s" by (simp add: loop_idle)
next
  assume "\<not> millisHasNowPassed e (millis s) (txt_send_timeout s)"
  then show "loop e s = s" by (simp add: loop_idle)
next
  show "loop e (loop e s) = loop e s" by (rule loop_twice)
qed

theorem send_timeout_contract_witness:
  "chat_step example_env (AckRecv \<lparr>isRouteFlood = False, path = [], path_len = 0\<rparr> 67305985)
       (example_chat\<lparr>txt_send_timeout := 7100\<rparr>)
     = Returns (example_chat\<lparr>effects := [MarkDoNotRetransmit], txt_send_timeout := 0\<rparr>)
   \<and> processAck example_env (u32_bytes 67305985)
   \<and> onAckRecv example_env \<lparr>isRouteFlood = False, path = [], path_len = 0\<rparr> 67305985
       (example_chat\<lparr>txt_send_timeout := 7100\<rparr>)
     = example_chat\<lparr>effects := [MarkDoNotRetransmit], txt_send_timeout := 0\<rparr>
   \<and> onPeerPathRecv example_env \<lparr>isRouteFlood = False, path = [], path_len = 0\<rparr> 0 [151, 89, 94]
       [7, 9] 2 PAYLOAD_TYPE_ACK [1, 2, 3, 4] 4 (example_chat\<lparr>txt_send_timeout := 7100\<rparr>)
     = Returns (True,
         example_chat
           \<lparr>effects := [OnContactPathUpdated (example_contact\<lparr>c_out_path_len := 2, c_out_path := [7, 9]\<rparr>)],
            contacts := [example_contact\<lparr>c_out_path_len := 2, c_out_path := [7, 9]\<rparr>, example_contact],
            txt_send_timeout := 0\<rparr>)
   \<and> loop example_env (example_chat\<lparr>txt_send_timeout := 4000\<rparr>)
     = example_chat\<lparr>effects := [OnSendTimeout], txt_send_timeout := 0\<rparr>
   \<and> loop example_env example_chat = example_chat
   \<and> loop example_env (example_chat\<lparr>txt_send_timeout := 7100\<rparr>) = example_chat\<lparr>txt_send_timeout := 7100\<rparr>"
proof -
  let ?p = "\<lparr>isRouteFlood = False, path = [], path_len = 0\<rparr>"
  let ?armed = "example_chat\<lparr>txt_send_timeout := 7100\<rparr>"
  have ack: "u32_bytes 67305985 = [1, 2, 3, 4]" by (simp add: u32_bytes_def)
  have st: "chat_step example_env (AckRecv ?p 67305985) ?armed
     = Returns (example_chat\<lparr>effects := [MarkDoNotRetransmit], txt_send_timeout := 0\<rparr>)"
    by (simp add: onAckRecv_def emit_def ack example_env_def example_chat_def)
  have ch: "txt_send_timeout (example_chat\<lparr>effects := [MarkDoNotRetransmit], txt_send_timeout := 0\<rparr>)
              \<noteq> txt_send_timeout ?armed"
    by simp
  have e1: "txt_send_timeout (example_chat\<lparr>txt_send_timeout := 4000\<rparr>) \<noteq> 0 \<and>
            millisHasNowPassed example_env (millis (example_chat\<lparr>txt_send_timeout := 4000\<rparr>))
              (txt_send_timeout (example_chat\<lparr>txt_send_timeout := 4000\<rparr>))"
    by (simp add: example_env_def example_chat_def)
  have e2: "txt_send_timeout example_chat = 0" by (simp add: example_chat_def)
  have e3: "\<not> millisHasNowPassed example_env (millis ?armed) (txt_send_timeout ?armed)"
    by (simp add: example_env_def example_chat_def)
  have e4: "0 < length (matching_peer_indexes ?armed) \<and> 0 \<le> matching_peer_indexes ?armed ! 0 \<and>
            matching_peer_indexes ?armed ! 0 < num_contacts ?armed \<and>
            unat (2 :: u8) \<le> MAX_PATH_SIZE example_env"
    by (simp add: example_env_def example_chat_def)
  note t1 = send_timeout_contract [of example_env "AckRecv ?p 67305985" ?armed
      "example_chat\<lparr>effects := [MarkDoNotRetransmit], txt_send_timeout := 0\<rparr>"]
  from t1 [THEN conjunct1, THEN mp, OF conjI [OF st ch]]
  have a: "processAck example_env (u32_bytes 67305985)" by simp
  note t2 = send_timeout_contract [where e = example_env and s = ?armed and ?pkt0.0 = ?p
      and ?ack0.0 = 67305985]
  from t2 [THEN conjunct2, THEN conjunct1] a
  have a2: "onAckRecv example_env ?p 67305985 ?armed
     = example_chat\<lparr>effects := [MarkDoNotRetransmit], txt_send_timeout := 0\<rparr>"
    by (simp add: example_chat_def)
  note t3 = send_timeout_contract [where e = example_env and s = ?armed and idx = 0 and n = 2
      and ?pkt1.0 = ?p and ?sec1.0 = "[151, 89, 94]" and ?pth1.0 = "[7, 9]"
      and ?extra_type1.0 = PAYLOAD_TYPE_ACK and ?extra1.0 = "[1, 2, 3, 4]" and ?extra_len1.0 = 4]
  from t3 [THEN conjunct2, THEN conjunct2, THEN conjunct1, THEN mp, OF e4]
  have a3: "onPeerPathRecv example_env ?p 0 [151, 89, 94] [7, 9] 2 PAYLOAD_TYPE_ACK [1, 2, 3, 4] 4 ?armed
     = Returns (True,
         example_chat
           \<lparr>effects := [OnContactPathUpdated (example_contact\<lparr>c_out_path_len := 2, c_out_path := [7, 9]\<rparr>)],
            contacts := [example_contact\<lparr>c_out_path_len := 2, c_out_path := [7, 9]\<rparr>, example_contact],
            txt_send_timeout := 0\<rparr>)"
    by (simp add: Let_def example_chat_def example_env_def example_contact_def memcpy_front_def)
  note t4 = send_timeout_contract [of example_env Loop "example_chat\<lparr>txt_send_timeout := 4000\<rparr>"]
  from t4 [THEN conjunct2, THEN conjunct2, THEN conjunct2, THEN conjunct1, THEN mp, OF e1]
  have b: "loop example_env (example_chat\<lparr>txt_send_timeout := 4000\<rparr>)
     = example_chat\<lparr>effects := [OnSendTimeout], txt_send_timeout := 0\<rparr>"
    by (simp add: example_chat_def)
  note t5 = send_timeout_contract [of example_env Loop example_chat]
  from t5 [THEN conjunct2, THEN conjunct2, THEN conjunct2, THEN conjunct2, THEN conjunct1, THEN mp, OF e2]
  have c: "loop example_env example_chat = example_chat" .
  note t6 = send_timeout_contract [of example_env Loop ?armed]
  from t6 [THEN conjunct2, THEN conjunct2, THEN conjunct2, THEN conjunct2, THEN conjunct2,
           THEN conjunct1, THEN mp, OF e3]
  have d: "loop example_env ?armed = ?armed" .
  show ?thesis by (intro conjI st a a2 a3 b c d)
qed

text \<open>
  Claim C8 as stated, with an ACK or a path return as the only ways an armed timer is
  cancelled before it fires, fails at \<^verbatim>\<open>sendMessage\<close>. With the timer armed for 6000 ms and
  the clock at 5000 ms, a second \<^verbatim>\<open>sendMessage\<close> overwrites the timer with the deadline of
  the new message, 7100 ms: \<^verbatim>\<open>loop()\<close> at 6500 ms, after the first deadline, reports no
  timeout, and no ACK was received. With the clock 2100 ms before the 32-bit wrap, the new
  deadline \<^verbatim>\<open>futureMillis\<close> computes is 0, the value that means "no timer": the armed timer
  is cleared by the send itself.
\<close>

theorem send_replaces_armed_timeout:
  "txt_send_timeout (example_chat\<lparr>txt_send_timeout := 6000\<rparr>) \<noteq> 0
   \<and> chat_step example_env (SendMessage example_contact 0 (bytes_of ''hello'') [])
         (example_chat\<lparr>txt_send_timeout := 6000\<rparr>)
     = Returns (example_chat
         \<lparr>pool_free := 7,
          effects := [SendFlood (Datagram PAYLOAD_TYPE_TXT_MSG example_peer [151, 89, 94]
                                   [232, 3, 0, 0, 0, 104, 101, 108, 108, 111]) 0],
          txt_send_timeout := 7100\<rparr>)
   \<and> loop example_env
         (example_chat
            \<lparr>millis := 6500, pool_free := 7,
             effects := [SendFlood (Datagram PAYLOAD_TYPE_TXT_MSG example_peer [151, 89, 94]
                                      [232, 3, 0, 0, 0, 104, 101, 108, 108, 111]) 0],
             txt_send_timeout := 7100\<rparr>)
     = example_chat
         \<lparr>millis := 6500, pool_free := 7,
          effects := [SendFlood (Datagram PAYLOAD_TYPE_TXT_MSG example_peer [151, 89, 94]
                                   [232, 3, 0, 0, 0, 104, 101, 108, 108, 111]) 0],
          txt_send_timeout := 7100\<rparr>
   \<and> chat_step example_env (SendMessage example_contact 0 (bytes_of ''hello'') [])
         (example_chat\<lparr>millis := 4294965196, txt_send_timeout := 6000\<rparr>)
     = Returns (example_chat
         \<lparr>millis := 4294965196, pool_free := 7,
          effects := [SendFlood (Datagram PAYLOAD_TYPE_TXT_MSG example_peer [151, 89, 94]
                                   [232, 3, 0, 0, 0, 104, 101, 108, 108, 111]) 0],
          txt_send_timeout := 0\<rparr>)"
  by (simp add: sendMessage_def composeMsgPacket_def Let_def strlen_def cstr_def bytes_of_def
        getCurrentTime_def createDatagram_def create_def pool_alloc_def sha256_def u32_bytes_def
        sendFlood_def emit_def futureMillis_def loop_def
        example_env_def example_chat_def example_contact_def example_peer_def)


section \<open>The tables keep their size\<close>

text \<open>
  The theorems on the login and on adverts assume that the table is the array the class
  declares, \<^verbatim>\<open>MAX_CLIENTS\<close> or \<^verbatim>\<open>MAX_CONTACTS\<close> entries long. No step changes the length of
  a table, so this holds in every state that can be reached.
\<close>

lemma handleCommand_clients:
  "handleCommand e ts cmd s = Some (s', reply) \<Longrightarrow> known_clients s' = known_clients s"
  by (auto simp: handleCommand_def Let_def sendSelfAdvertisement_def createAdvert_def create_def
        pool_alloc_def sendFlood_def emit_def setCurrentTime_def split: if_splits)

lemma on_cli_text_clients:
  "on_cli_text e i sec data s = Returns s' \<Longrightarrow> length (known_clients s') = length (known_clients s)"
  by (auto simp: on_cli_text_def ack_cli_text_def send_cli_reply_def Let_def createAck_def
        createDatagram_def create_def pool_alloc_def sendFlood_def sendDirect_def emit_def
        split: if_splits option.splits prod.splits dest!: handleCommand_clients)

lemma onAnonDataRecv_clients:
  "length (known_clients (onAnonDataRecv e pkt type sender data s)) = length (known_clients s)"
  by (simp add: onAnonDataRecv_def putClient_def send_response_def Let_def createPathReturn_def
        createDatagram_def create_def pool_alloc_def sendFlood_def sendDirect_def emit_def
        split: option.splits)

lemma on_req_clients: "length (known_clients (on_req e pkt i sec data s)) = length (known_clients s)"
  by (simp add: on_req_def handleRequest_def send_response_def Let_def createPathReturn_def
        createDatagram_def create_def pool_alloc_def sendFlood_def sendDirect_def emit_def)

lemma rep_step_clients:
  assumes step: "rep_step e rop s = Returns s'"
  shows "length (known_clients s') = length (known_clients s)"
proof (cases rop)
  case (R_AnonDataRecv pkt type sender data)
  with step show ?thesis by (auto simp: onAnonDataRecv_clients)
next
  case (R_SearchPeersByHash h)
  with step show ?thesis by (auto simp: searchPeersByHash_rep_def Let_def)
next
  case (R_PeerDataRecv pkt type sender_idx sec data)
  with step show ?thesis
    by (auto simp: onPeerDataRecv_rep_def Let_def on_req_clients split: if_splits
          dest: on_cli_text_clients)
next
  case (R_PeerPathRecv sender_idx pth pth_len)
  with step show ?thesis by (auto simp: onPeerPathRecv_rep_def Let_def split: if_splits)
next
  case (R_SerialCommand command)
  with step show ?thesis by (auto split: option.splits if_splits dest: handleCommand_clients)
next
  case (R_ClockAdvance r m)
  with step show ?thesis by auto
qed

lemma rep_reachable_clients: "rep_reachable e s \<Longrightarrow> length (known_clients s) = MAX_CLIENTS"
proof (induction rule: rep_reachable.induct)
  case (rep_init s)
  then show ?case by (simp add: my_mesh_initial_def)
next
  case (rep_next s op s')
  from rep_step_clients [OF rep_next.hyps(2)] rep_next.IH show ?case by simp
qed

lemma chat_step_contacts:
  assumes step: "chat_step e cop s = Returns s'"
  shows "length (contacts s') = length (contacts s)"
proof (cases cop)
  case (AdvertRecv pkt ident ts p)
  with step show ?thesis
    by (auto simp: onAdvertRecv_def update_contact_def emit_def Let_def split: option.splits if_splits)
next
  case (SearchPeersByHash h)
  with step show ?thesis by (auto simp: searchPeersByHash_def Let_def)
next
  case (PeerDataRecv pkt type sender_idx sec data)
  with step show ?thesis
    by (auto simp: onPeerDataRecv_def send_ack_def Let_def createPathReturn_def createAck_def
          create_def pool_alloc_def sendFlood_def sendDirect_def emit_def split: if_splits)
next
  case (PeerPathRecv pkt sender_idx sec pth pth_len extra_type extra extra_len)
  with step obtain b where
    "onPeerPathRecv e pkt sender_idx sec pth pth_len extra_type extra extra_len s = Returns (b, s')"
    by (auto dest: map_outcome_snd_Returns)
  then show ?thesis by (auto simp: onPeerPathRecv_def Let_def emit_def split: if_splits)
next
  case (AckRecv pkt ack_crc)
  with step show ?thesis by (auto simp: onAckRecv_def emit_def split: if_splits)
next
  case (GroupDataRecv pkt type channel data)
  with step show ?thesis by (auto simp: onGroupDataRecv_def emit_def split: if_splits)
next
  case (SendMessage r attempt msg old_ack)
  with step show ?thesis
    by (auto simp: sendMessage_def composeMsgPacket_def Let_def createDatagram_def create_def
          pool_alloc_def sendFlood_def sendDirect_def emit_def split: if_splits)
next
  case (ResetPathTo k)
  with step show ?thesis by (auto split: if_splits)
next
  case (AddContact contact)
  with step show ?thesis by (auto simp: addContact_def Let_def split: if_splits)
next
  case (AddChannel psk)
  with step obtain r where "addChannel e psk s = Returns (r, s')"
    by (auto dest: map_outcome_snd_Returns)
  then show ?thesis by (auto simp: addChannel_def Let_def split: option.splits if_splits)
next
  case Loop
  with step show ?thesis by (auto simp: loop_def emit_def split: if_splits)
next
  case (ClockAdvance r m)
  with step show ?thesis by auto
qed

lemma chat_reachable_contacts: "chat_reachable e s \<Longrightarrow> length (contacts s) = MAX_CONTACTS e"
proof (induction rule: chat_reachable.induct)
  case (chat_init s)
  then show ?case by (simp add: chat_initial_def)
next
  case (chat_next s op s')
  from chat_step_contacts [OF chat_next.hyps(2)] chat_next.IH show ?case by simp
qed

end
